theory Spec2Isabelle
  imports Main "HOL-Library.Multiset"
begin

section \<open>Run orchestration core of skyvern/forge/sdk/routes/agent\_protocol.py\<close>

text \<open>
  The route handlers of \<^verbatim>\<open>agent_protocol.py\<close> are embedded as HOL functions. A
  handler that writes to the record store or calls a collaborator takes the state and
  returns the new one together with its result; an exception it raises is the \<open>Inl\<close>
  branch of the result. Every call that has an effect outside the handler appends one
  entry to the trace \<open>effects\<close> of the state, so that the order of the calls can be read
  off the trace.
\<close>

subsection \<open>Data model\<close>

text \<open>
  Modelled from the spec: the enumerations \<^verbatim>\<open>WorkflowRunStatus\<close> and
  \<^verbatim>\<open>TaskStatus\<close> are declared outside the sources at hand. The spec lists the
  statuses created, queued, running, canceled, completed, failed, terminated and leaves
  the list open; \<open>other_status\<close> stands for every status it does not name.
\<close>

datatype run_status =
  created | queued | running | canceled | completed | failed | terminated
  | other_status string

text \<open>\<^verbatim>\<open>HTTPException(status_code=..., detail=...)\<close>.\<close>

datatype http_exception = HTTPException nat string

record organization =
  organization_id :: string

text \<open>
  A row of the workflow-run table. The handler reads \<^verbatim>\<open>workflow_run_id\<close> and
  \<^verbatim>\<open>status\<close>; the record store selects by organization and by parent.
\<close>

record workflow_run =
  workflow_run_id :: string
  wr_organization_id :: string
  status :: run_status
  parent_workflow_run_id :: "string option"

record task =
  task_id :: string
  task_organization_id :: string
  task_status :: run_status

record step =
  step_id :: string

subsection \<open>Timeline entries\<close>

text \<open>
  Modelled from the spec: \<^verbatim>\<open>BlockType\<close> is declared outside the sources at hand.
  The handler compares a block's type with \<^verbatim>\<open>BlockType.TaskV2\<close> only;
  \<open>other_block_type\<close> stands for every other member.
\<close>

datatype block_type = TaskV2 | other_block_type string

record workflow_run_block =
  workflow_run_block_id :: string
  block_type :: block_type
  block_workflow_run_id :: "string option"

record observer_thought =
  observer_thought_id :: string

datatype workflow_run_timeline_type = type_block | type_thought

text \<open>
  \<^verbatim>\<open>WorkflowRunTimeline\<close> (client/types/workflow\_run\_timeline.py), with its fields
  as selectors; \<^verbatim>\<open>type\<close> is \<open>timeline_type\<close>. A \<^verbatim>\<open>datetime\<close> is the number
  of microseconds since the epoch.
\<close>

datatype workflow_run_timeline = WorkflowRunTimeline
  (timeline_type: workflow_run_timeline_type)
  (block: "workflow_run_block option")
  (thought: "observer_thought option")
  (children: "workflow_run_timeline list option")
  (created_at: int)
  (modified_at: int)

text \<open>A log call of \<^verbatim>\<open>structlog\<close>: level, event and key-value pairs.\<close>

datatype log_level = Info | Warning | Error

datatype log_value = LNone | LBool bool | LInt int | LStr string

datatype log_record = Log log_level string "(string \<times> log_value) list"

text \<open>Python's truth value of a \<^verbatim>\<open>str | None\<close>: false for None and the empty string.\<close>

definition truthy_str :: "string option \<Rightarrow> bool" where
  "truthy_str v = (case v of None \<Rightarrow> False | Some s \<Rightarrow> s \<noteq> [])"

text \<open>
  JSON values, and the union \<^verbatim>\<open>dict | list | str\<close> of the schema and payload
  fields. The request and response models are declared outside the sources at hand; the
  handlers only pass these values on and test their truth value.
\<close>

datatype json =
  JNull | JBool bool | JNum int | JStr string | JList "json list" | JDict "(string \<times> json) list"

datatype schema = SchemaDict "(string \<times> json) list" | SchemaList "json list" | SchemaStr string

text \<open>
  The autonomous-run record (\<^verbatim>\<open>task_v2\<close>), with the fields the handlers read.
  Its status is kept as the status itself where the source writes \<^verbatim>\<open>str(status)\<close>.
\<close>

record task_v2 =
  observer_cruise_id :: string
  tv2_status :: run_status
  tv2_prompt :: "string option"
  tv2_url :: "string option"
  tv2_output :: "schema option"
  tv2_failure_reason :: "string option"
  tv2_webhook_callback_url :: "string option"
  tv2_totp_identifier :: "string option"
  tv2_totp_verification_url :: "string option"
  tv2_proxy_location :: "string option"
  tv2_error_code_mapping :: "(string \<times> string) list option"
  tv2_extracted_information_schema :: "schema option"
  tv2_created_at :: int
  tv2_modified_at :: int


subsection \<open>Requests and responses of the dispatcher\<close>

text \<open>
  Modelled from the spec: \<^verbatim>\<open>RunEngine\<close> is declared outside the sources at hand.
  The handler compares the selector with \<^verbatim>\<open>RunEngine.skyvern_v1\<close> and
  \<^verbatim>\<open>RunEngine.skyvern_v2\<close>; the spec speaks of unrecognized selectors, for which
  \<open>other_engine\<close> stands.
\<close>

datatype run_engine = skyvern_v1 | skyvern_v2 | other_engine string

text \<open>The text of a selector in the detail of the 400 response.\<close>

fun engine_text :: "run_engine \<Rightarrow> string" where
  "engine_text skyvern_v1 = ''skyvern-1.0''"
| "engine_text skyvern_v2 = ''skyvern-2.0''"
| "engine_text (other_engine name) = name"

text \<open>
  \<^verbatim>\<open>TaskRunRequest\<close>, with the fields \<^verbatim>\<open>run_task\<close> reads (each prefixed
  \<open>req_\<close>).
\<close>

record task_run_request =
  req_goal :: string
  req_url :: "string option"
  req_title :: "string option"
  req_engine :: run_engine
  req_proxy_location :: "string option"
  req_data_extraction_schema :: "schema option"
  req_error_code_mapping :: "(string \<times> string) list option"
  req_max_steps :: "int option"
  req_webhook_url :: "string option"
  req_totp_identifier :: "string option"
  req_totp_url :: "string option"
  req_browser_session_id :: "string option"
  req_publish_workflow :: bool

text \<open>\<^verbatim>\<open>TaskV2Request\<close>, the body of the dedicated v2 endpoint (prefix \<open>v2r_\<close>).\<close>

record task_v2_request =
  v2r_user_prompt :: string
  v2r_url :: "string option"
  v2r_totp_identifier :: "string option"
  v2r_totp_verification_url :: "string option"
  v2r_webhook_callback_url :: "string option"
  v2r_proxy_location :: "string option"
  v2r_publish_workflow :: bool
  v2r_extracted_information_schema :: "schema option"
  v2r_error_code_mapping :: "(string \<times> string) list option"
  v2r_browser_session_id :: "string option"

text \<open>What \<^verbatim>\<open>task_v1_service.generate_task\<close> returns (prefix \<open>gen_\<close>).\<close>

record task_generation =
  gen_url :: "string option"
  gen_navigation_goal :: "string option"
  gen_navigation_payload :: "schema option"
  gen_data_extraction_goal :: "string option"
  gen_extracted_information_schema :: "schema option"

text \<open>\<^verbatim>\<open>TaskRequest\<close>, the request of the scripted engine (prefix \<open>tr_\<close>).\<close>

record task_request =
  tr_title :: "string option"
  tr_url :: "string option"
  tr_navigation_goal :: "string option"
  tr_navigation_payload :: "schema option"
  tr_data_extraction_goal :: "string option"
  tr_extracted_information_schema :: "schema option"
  tr_error_code_mapping :: "(string \<times> string) list option"
  tr_proxy_location :: "string option"
  tr_browser_session_id :: "string option"

text \<open>What \<^verbatim>\<open>task_v1_service.run_task\<close> returns (prefix \<open>t1_\<close>).\<close>

record task_v1_response =
  t1_task_id :: string
  t1_title :: "string option"
  t1_status :: run_status
  t1_created_at :: int
  t1_modified_at :: int
  t1_navigation_goal :: "string option"
  t1_url :: "string option"
  t1_extracted_information :: "schema option"
  t1_failure_reason :: "string option"
  t1_extracted_information_schema :: "schema option"
  t1_error_code_mapping :: "(string \<times> string) list option"
  t1_proxy_location :: "string option"
  t1_totp_identifier :: "string option"
  t1_totp_verification_url :: "string option"
  t1_webhook_callback_url :: "string option"
  t1_max_steps_per_run :: "int option"

text \<open>
  \<^verbatim>\<open>TaskRunResponse\<close> (prefix \<open>resp_\<close>). The v1 branch passes
  \<^verbatim>\<open>updated_at\<close> and \<^verbatim>\<open>max_steps\<close>, the v2 branch passes
  \<^verbatim>\<open>modified_at\<close>; a field a branch does not pass is \<open>None\<close>.
\<close>

record task_run_response =
  resp_run_id :: string
  resp_title :: "string option"
  resp_status :: run_status
  resp_created_at :: int
  resp_updated_at :: "int option"
  resp_modified_at :: "int option"
  resp_engine :: run_engine
  resp_goal :: "string option"
  resp_url :: "string option"
  resp_output :: "schema option"
  resp_failure_reason :: "string option"
  resp_data_extraction_schema :: "schema option"
  resp_error_code_mapping :: "(string \<times> string) list option"
  resp_proxy_location :: "string option"
  resp_totp_identifier :: "string option"
  resp_totp_url :: "string option"
  resp_webhook_url :: "string option"
  resp_max_steps :: "int option"

text \<open>The keyword arguments of \<^verbatim>\<open>task_v2_service.initialize_task_v2\<close> (prefix \<open>init_\<close>).\<close>

record initialize_task_v2_args =
  init_organization :: organization
  init_user_prompt :: string
  init_user_url :: "string option"
  init_totp_identifier :: "string option"
  init_totp_verification_url :: "string option"
  init_webhook_callback_url :: "string option"
  init_proxy_location :: "string option"
  init_publish_workflow :: bool
  init_create_task_run :: bool
  init_extracted_information_schema :: "schema option"
  init_error_code_mapping :: "(string \<times> string) list option"

text \<open>A header of type \<^verbatim>\<open>int | str | None\<close>.\<close>

datatype header_value = HInt int | HStr string

text \<open>The exception of the reasoning provider that the handlers catch.\<close>

datatype service_error = LLMProviderError

text \<open>
  The calls with an effect outside the handler, in the order they are made:
  \<^verbatim>\<open>analytics.capture\<close>, \<^verbatim>\<open>app.agent.update_task\<close>,
  \<^verbatim>\<open>app.agent.execute_task_webhook\<close>,
  \<^verbatim>\<open>app.WORKFLOW_SERVICE.mark_workflow_run_as_canceled\<close>,
  \<^verbatim>\<open>app.WORKFLOW_SERVICE.execute_workflow_webhook\<close>, the permission check,
  \<^verbatim>\<open>task_v1_service.generate_task\<close>, \<^verbatim>\<open>task_v1_service.run_task\<close>
  (which creates and starts a v1 task), \<^verbatim>\<open>task_v2_service.initialize_task_v2\<close>,
  \<^verbatim>\<open>AsyncExecutorFactory.get_executor().execute_task_v2\<close> (organization id, task v2
  id, max steps override, browser session id) and the log calls, each with its arguments.
\<close>

datatype effect =
  AnalyticsCapture string "(string \<times> string option) list"
  | UpdateTask string run_status
  | ExecuteTaskWebhook task "step option" "string option"
  | MarkWorkflowRunAsCanceled string
  | ExecuteWorkflowWebhook workflow_run "string option"
  | PermissionCheck organization "string option"
  | GenerateTask string organization
  | RunTaskV1 task_request organization "int option" "string option"
  | InitializeTaskV2 initialize_task_v2_args
  | ExecuteTaskV2 string string "header_value option" "string option"
  | LogRecord log_record

text \<open>
  The record store and the trace. \<open>latest_step\<close> is
  \<^verbatim>\<open>app.DATABASE.get_latest_step\<close>, taken as a parameter: the step table is
  not written by the handlers embedded here.
\<close>

record state =
  workflow_runs :: "workflow_run list"
  tasks :: "task list"
  latest_step :: "string \<Rightarrow> string \<Rightarrow> step option"
  effects :: "effect list"

subsection \<open>The record store's operations\<close>

text \<open>
  Modelled from the spec: the record store is an external collaborator, queryable by
  id and by parent id within an organization; marking a run canceled writes the status
  of the run with that id, whatever it was before.
\<close>

definition get_workflow_run :: "state \<Rightarrow> string \<Rightarrow> string \<Rightarrow> workflow_run option" where
  "get_workflow_run s wid org =
     find (\<lambda>r. workflow_run_id r = wid \<and> wr_organization_id r = org) (workflow_runs s)"

definition get_workflow_runs_by_parent_workflow_run_id ::
  "state \<Rightarrow> string \<Rightarrow> string \<Rightarrow> workflow_run list" where
  "get_workflow_runs_by_parent_workflow_run_id s org pid =
     filter (\<lambda>r. wr_organization_id r = org \<and> parent_workflow_run_id r = Some pid)
       (workflow_runs s)"

definition mark_workflow_run_as_canceled :: "string \<Rightarrow> state \<Rightarrow> state" where
  "mark_workflow_run_as_canceled wid s =
     s\<lparr>workflow_runs :=
          map (\<lambda>r. if workflow_run_id r = wid then r\<lparr>status := canceled\<rparr> else r)
            (workflow_runs s),
        effects := effects s @ [MarkWorkflowRunAsCanceled wid]\<rparr>"

definition execute_workflow_webhook :: "workflow_run \<Rightarrow> string option \<Rightarrow> state \<Rightarrow> state" where
  "execute_workflow_webhook wr api_key s =
     s\<lparr>effects := effects s @ [ExecuteWorkflowWebhook wr api_key]\<rparr>"

definition analytics_capture ::
  "string \<Rightarrow> (string \<times> string option) list \<Rightarrow> state \<Rightarrow> state" where
  "analytics_capture name data s = s\<lparr>effects := effects s @ [AnalyticsCapture name data]\<rparr>"

definition get_task :: "state \<Rightarrow> string \<Rightarrow> string \<Rightarrow> task option" where
  "get_task s tid org =
     find (\<lambda>t. task_id t = tid \<and> task_organization_id t = org) (tasks s)"

text \<open>\<^verbatim>\<open>app.agent.update_task(task_obj, status=...)\<close> returns the updated task.\<close>

definition update_task :: "task \<Rightarrow> run_status \<Rightarrow> state \<Rightarrow> task \<times> state" where
  "update_task task_obj st s =
     (task_obj\<lparr>task_status := st\<rparr>,
      s\<lparr>tasks :=
           map (\<lambda>t. if task_id t = task_id task_obj then t\<lparr>task_status := st\<rparr> else t)
             (tasks s),
         effects := effects s @ [UpdateTask (task_id task_obj) st]\<rparr>)"

definition execute_task_webhook ::
  "task \<Rightarrow> step option \<Rightarrow> string option \<Rightarrow> state \<Rightarrow> state" where
  "execute_task_webhook t last_step api_key s =
     s\<lparr>effects := effects s @ [ExecuteTaskWebhook t last_step api_key]\<rparr>"

subsection \<open>cancel\_task and cancel\_workflow\_run\<close>

definition cancel_task ::
  "string \<Rightarrow> organization \<Rightarrow> string option \<Rightarrow> state \<Rightarrow> (http_exception + unit) \<times> state" where
  "cancel_task tid current_org x_api_key s0 =
     (let s1 = analytics_capture ''skyvern-oss-agent-task-get'' [] s0 in
      case get_task s1 tid (organization_id current_org) of
        None \<Rightarrow> (Inl (HTTPException 404 (''Task not found '' @ tid)), s1)
      | Some task_obj \<Rightarrow>
          (let (t, s2) = update_task task_obj canceled s1;
               last_step = latest_step s2 tid (organization_id current_org)
           in (Inr (), execute_task_webhook t last_step x_api_key s2)))"

text \<open>
  The loop over the children: a child whose status is not one of running, created,
  queued is skipped (\<^verbatim>\<open>continue\<close>); the status tested is the one of the row as
  it was loaded before the loop.
\<close>

fun cancel_children :: "workflow_run list \<Rightarrow> state \<Rightarrow> state" where
  "cancel_children [] s = s"
| "cancel_children (child_workflow_run # rest) s =
     (if status child_workflow_run \<notin> set [running, created, queued]
      then cancel_children rest s
      else cancel_children rest
             (mark_workflow_run_as_canceled (workflow_run_id child_workflow_run) s))"

definition cancel_workflow_run ::
  "string \<Rightarrow> organization \<Rightarrow> string option \<Rightarrow> state \<Rightarrow> (http_exception + unit) \<times> state" where
  "cancel_workflow_run wid current_org x_api_key s0 =
     (case get_workflow_run s0 wid (organization_id current_org) of
        None \<Rightarrow> (Inl (HTTPException 404 (''Workflow run not found '' @ wid)), s0)
      | Some wr \<Rightarrow>
          (let child_workflow_runs =
                 get_workflow_runs_by_parent_workflow_run_id s0 (organization_id current_org) wid;
               s1 = cancel_children child_workflow_runs s0;
               s2 = mark_workflow_run_as_canceled wid s1
           in (Inr (), execute_workflow_webhook wr x_api_key s2)))"

text \<open>The webhook calls in a trace, for counting them.\<close>

fun is_workflow_webhook :: "effect \<Rightarrow> bool" where
  "is_workflow_webhook (ExecuteWorkflowWebhook wr k) = True"
| "is_workflow_webhook e = False"


subsection \<open>The timeline aggregator\<close>

text \<open>
  The reads of the aggregator, taken as parameters: \<^verbatim>\<open>app.DATABASE.get_task_v2_by_workflow_run_id\<close>
  (workflow run id, organization id), \<^verbatim>\<open>app.WORKFLOW_SERVICE.get_workflow_run_timeline\<close>
  (workflow run id, organization id) and \<^verbatim>\<open>task_v2_service.get_thought_timelines\<close>
  (task v2 id, organization id).
\<close>

record timeline_store =
  get_task_v2_by_workflow_run_id :: "string \<Rightarrow> string \<Rightarrow> task_v2 option"
  service_get_workflow_run_timeline :: "string \<Rightarrow> string \<Rightarrow> workflow_run_timeline list"
  get_thought_timelines :: "string \<Rightarrow> string \<Rightarrow> workflow_run_timeline list"

text \<open>
  \<^verbatim>\<open>list.sort(key=lambda x: x.created_at, reverse=True)\<close>: a stable sort; with
  \<^verbatim>\<open>reverse=True\<close> the list is reversed, sorted in ascending order and reversed
  again, so that entries with equal keys keep their order.
\<close>

definition sort_created_at_reverse :: "workflow_run_timeline list \<Rightarrow> workflow_run_timeline list" where
  "sort_created_at_reverse xs = rev (sort_key created_at (rev xs))"

text \<open>The warning of the loop, with its three fields.\<close>

definition block_workflow_run_id_warning :: "string \<Rightarrow> string \<Rightarrow> task_v2 option \<Rightarrow> log_record" where
  "block_workflow_run_id_warning run_id org_id task_v2_obj =
     Log Warning ''Block workflow run id is not set for task_v2 block''
       [(''workflow_run_id'', LStr run_id),
        (''organization_id'', LStr org_id),
        (''task_v2_id'',
           case task_v2_obj of None \<Rightarrow> LNone | Some t \<Rightarrow> LStr (observer_cruise_id t))]"

text \<open>
  The loop over the raw timeline. \<open>recur\<close> is the recursive call on a nested run, which
  may not return (\<open>None\<close>); the pair carried along is the list
  \<^verbatim>\<open>final_workflow_run_block_timeline\<close> and the log records written so far.
\<close>

fun flatten_blocks ::
  "(string \<Rightarrow> (workflow_run_timeline list \<times> log_record list) option) \<Rightarrow>
   string \<Rightarrow> string \<Rightarrow> task_v2 option \<Rightarrow> workflow_run_timeline list \<Rightarrow>
   workflow_run_timeline list \<times> log_record list \<Rightarrow>
   (workflow_run_timeline list \<times> log_record list) option" where
  "flatten_blocks recur org_id run_id task_v2_obj [] (final, logs) =
     Some (final, logs)"
| "flatten_blocks recur org_id run_id task_v2_obj (timeline # rest) (final, logs) =
     (case block timeline of
        None \<Rightarrow> flatten_blocks recur org_id run_id task_v2_obj rest (final, logs)
      | Some b \<Rightarrow>
          if block_type b \<noteq> TaskV2 then
            flatten_blocks recur org_id run_id task_v2_obj rest
              (final @ [timeline], logs)
          else if \<not> truthy_str (block_workflow_run_id b) then
            flatten_blocks recur org_id run_id task_v2_obj rest
              (final,
               logs @ [block_workflow_run_id_warning run_id org_id task_v2_obj])
          else
            (case recur (the (block_workflow_run_id b)) of
               None \<Rightarrow> None
             | Some (workflow_blocks, logs') \<Rightarrow>
                 flatten_blocks recur org_id run_id task_v2_obj rest
                   (final @ workflow_blocks, logs @ logs')))"

text \<open>
  The body of \<^verbatim>\<open>_flatten_workflow_run_timeline\<close> up to the sort: the two reads, the
  loop, and the thoughts appended when the run has an autonomous-run record with a
  non-empty id.
\<close>

definition accumulated_timeline ::
  "(string \<Rightarrow> (workflow_run_timeline list \<times> log_record list) option) \<Rightarrow>
   timeline_store \<Rightarrow> string \<Rightarrow> string \<Rightarrow>
   (workflow_run_timeline list \<times> log_record list) option" where
  "accumulated_timeline recur db org_id run_id =
     (let task_v2_obj = get_task_v2_by_workflow_run_id db run_id org_id;
          workflow_run_block_timeline =
            service_get_workflow_run_timeline db run_id org_id
      in case flatten_blocks recur org_id run_id task_v2_obj
                workflow_run_block_timeline ([], []) of
           None \<Rightarrow> None
         | Some (final, logs) \<Rightarrow>
             (case task_v2_obj of
                None \<Rightarrow> Some (final, logs)
              | Some t \<Rightarrow>
                  if observer_cruise_id t \<noteq> []
                  then Some (final @ get_thought_timelines db (observer_cruise_id t) org_id,
                             logs)
                  else Some (final, logs)))"

text \<open>
  \<^verbatim>\<open>_flatten_workflow_run_timeline\<close>. The source recurses on the nested run of each
  TaskV2 block with no guard, so it need not return; the first argument bounds the depth
  of the recursion, and \<open>None\<close> is a call that does not return within that depth.
\<close>

primrec flatten_workflow_run_timeline ::
  "nat \<Rightarrow> timeline_store \<Rightarrow> string \<Rightarrow> string \<Rightarrow>
   (workflow_run_timeline list \<times> log_record list) option" where
  "flatten_workflow_run_timeline 0 db org_id run_id = None"
| "flatten_workflow_run_timeline (Suc fuel) db org_id run_id =
     (case accumulated_timeline (flatten_workflow_run_timeline fuel db org_id)
             db org_id run_id of
        None \<Rightarrow> None
      | Some (final, logs) \<Rightarrow> Some (sort_created_at_reverse final, logs))"

text \<open>
  The handler of \<^verbatim>\<open>GET /workflows/{workflow_id}/runs/{workflow_run_id}/timeline\<close>,
  with its query parameters \<^verbatim>\<open>page\<close> and \<^verbatim>\<open>page_size\<close>.
\<close>

definition get_workflow_run_timeline ::
  "nat \<Rightarrow> timeline_store \<Rightarrow> string \<Rightarrow> int \<Rightarrow> int \<Rightarrow> organization \<Rightarrow>
   (workflow_run_timeline list \<times> log_record list) option" where
  "get_workflow_run_timeline fuel db run_id page page_size current_org =
     flatten_workflow_run_timeline fuel db (organization_id current_org) run_id"

text \<open>
  For stating what the aggregator returns, in the spec's words: an entry whose block is of
  the nested-autonomous-run kind; the entries one raw entry stands for in the output (none
  for an entry with no block, the entry itself for a block of another kind, the timeline
  of the nested run for a TaskV2 block with a nested run id, none for a TaskV2 block
  without one); and the thought entries of a run.
\<close>

definition is_task_v2_entry :: "workflow_run_timeline \<Rightarrow> bool" where
  "is_task_v2_entry t = (case block t of None \<Rightarrow> False | Some b \<Rightarrow> block_type b = TaskV2)"

definition spliced_entries ::
  "(string \<Rightarrow> (workflow_run_timeline list \<times> log_record list) option) \<Rightarrow>
   workflow_run_timeline \<Rightarrow> workflow_run_timeline list" where
  "spliced_entries recur t =
     (case block t of
        None \<Rightarrow> []
      | Some b \<Rightarrow>
          if block_type b \<noteq> TaskV2 then [t]
          else if truthy_str (block_workflow_run_id b) then
            (case recur (the (block_workflow_run_id b)) of
               None \<Rightarrow> []
             | Some (sub, l) \<Rightarrow> sub)
          else [])"

definition thought_entries :: "timeline_store \<Rightarrow> string \<Rightarrow> string \<Rightarrow> workflow_run_timeline list" where
  "thought_entries db org_id run_id =
     (case get_task_v2_by_workflow_run_id db run_id org_id of
        None \<Rightarrow> []
      | Some t \<Rightarrow>
          if observer_cruise_id t \<noteq> [] then get_thought_timelines db (observer_cruise_id t) org_id
          else [])"

subsection \<open>The dispatcher\<close>

text \<open>
  The collaborators of the dispatcher, taken as parameters: the permission check (it
  returns the exception it raises, if any), task generation, the creation and start of a
  v1 task, and the initialization of a v2 run, which either fails with the provider's
  exception or returns the run record.
\<close>

record dispatch_env =
  permission_check :: "organization \<Rightarrow> string option \<Rightarrow> http_exception option"
  generate_task :: "string \<Rightarrow> organization \<Rightarrow> task_generation"
  task_v1_run_task ::
    "task_request \<Rightarrow> organization \<Rightarrow> int option \<Rightarrow> string option \<Rightarrow> task_v1_response"
  initialize_task_v2 :: "initialize_task_v2_args \<Rightarrow> service_error + task_v2"

definition add_effect :: "effect \<Rightarrow> state \<Rightarrow> state" where
  "add_effect e s = s\<lparr>effects := effects s @ [e]\<rparr>"

text \<open>
  Python's truth value of a schema (false for None, the empty dict, the empty list and the
  empty string) and of a header (false for None, 0 and the empty string), and
  \<^verbatim>\<open>a or b\<close>.
\<close>

definition truthy_schema :: "schema option \<Rightarrow> bool" where
  "truthy_schema v =
     (case v of
        None \<Rightarrow> False
      | Some (SchemaDict d) \<Rightarrow> d \<noteq> []
      | Some (SchemaList l) \<Rightarrow> l \<noteq> []
      | Some (SchemaStr s) \<Rightarrow> s \<noteq> [])"

definition truthy_header :: "header_value option \<Rightarrow> bool" where
  "truthy_header v =
     (case v of None \<Rightarrow> False | Some (HInt n) \<Rightarrow> n \<noteq> 0 | Some (HStr s) \<Rightarrow> s \<noteq> [])"

definition py_or :: "('a \<Rightarrow> bool) \<Rightarrow> 'a \<Rightarrow> 'a \<Rightarrow> 'a" where
  "py_or truthy a b = (if truthy a then a else b)"

definition log_header :: "header_value option \<Rightarrow> log_value" where
  "log_header v = (case v of None \<Rightarrow> LNone | Some (HInt n) \<Rightarrow> LInt n | Some (HStr s) \<Rightarrow> LStr s)"

definition llm_failure_log :: log_record where
  "llm_failure_log = Log Error ''LLM failure to initialize task v2'' [(''exc_info'', LBool True)]"

definition llm_failure_exception :: http_exception where
  "llm_failure_exception =
     HTTPException 500 ''Skyvern LLM failure to initialize task v2. Please try again later.''"

text \<open>
  The v1 branch of \<^verbatim>\<open>run_task\<close> up to the request of the scripted engine: the five
  local variables, set from the request and, when the request has no url, from the
  generated task.
\<close>

definition v1_task_request ::
  "dispatch_env \<Rightarrow> task_run_request \<Rightarrow> organization \<Rightarrow> state \<Rightarrow> task_request \<times> state" where
  "v1_task_request env run_request current_org s =
     (let url = req_url run_request;
          data_extraction_goal = None;
          data_extraction_schema = req_data_extraction_schema run_request;
          navigation_goal = Some (req_goal run_request);
          navigation_payload = None;
          (url, navigation_goal, navigation_payload, data_extraction_goal,
           data_extraction_schema, s') =
            (if \<not> truthy_str url then
               (let task_generation = generate_task env (req_goal run_request) current_org
                in (gen_url task_generation,
                    py_or truthy_str (gen_navigation_goal task_generation)
                      (Some (req_goal run_request)),
                    gen_navigation_payload task_generation,
                    gen_data_extraction_goal task_generation,
                    py_or truthy_schema data_extraction_schema
                      (gen_extracted_information_schema task_generation),
                    add_effect (GenerateTask (req_goal run_request) current_org) s))
             else (url, navigation_goal, navigation_payload, data_extraction_goal,
                   data_extraction_schema, s))
      in (\<lparr>tr_title = req_title run_request,
           tr_url = url,
           tr_navigation_goal = navigation_goal,
           tr_navigation_payload = navigation_payload,
           tr_data_extraction_goal = data_extraction_goal,
           tr_extracted_information_schema = data_extraction_schema,
           tr_error_code_mapping = req_error_code_mapping run_request,
           tr_proxy_location = req_proxy_location run_request,
           tr_browser_session_id = req_browser_session_id run_request\<rparr>, s'))"

definition v1_response :: "task_v1_response \<Rightarrow> task_run_response" where
  "v1_response task_v1_response =
     \<lparr>resp_run_id = t1_task_id task_v1_response,
      resp_title = t1_title task_v1_response,
      resp_status = t1_status task_v1_response,
      resp_created_at = t1_created_at task_v1_response,
      resp_updated_at = Some (t1_modified_at task_v1_response),
      resp_modified_at = None,
      resp_engine = skyvern_v1,
      resp_goal = t1_navigation_goal task_v1_response,
      resp_url = t1_url task_v1_response,
      resp_output = t1_extracted_information task_v1_response,
      resp_failure_reason = t1_failure_reason task_v1_response,
      resp_data_extraction_schema = t1_extracted_information_schema task_v1_response,
      resp_error_code_mapping = t1_error_code_mapping task_v1_response,
      resp_proxy_location = t1_proxy_location task_v1_response,
      resp_totp_identifier = t1_totp_identifier task_v1_response,
      resp_totp_url = t1_totp_verification_url task_v1_response,
      resp_webhook_url = t1_webhook_callback_url task_v1_response,
      resp_max_steps = t1_max_steps_per_run task_v1_response\<rparr>"

definition v2_response :: "task_run_request \<Rightarrow> task_v2 \<Rightarrow> task_run_response" where
  "v2_response run_request task_v2 =
     \<lparr>resp_run_id = observer_cruise_id task_v2,
      resp_title = req_title run_request,
      resp_status = tv2_status task_v2,
      resp_created_at = tv2_created_at task_v2,
      resp_updated_at = None,
      resp_modified_at = Some (tv2_modified_at task_v2),
      resp_engine = skyvern_v2,
      resp_goal = tv2_prompt task_v2,
      resp_url = tv2_url task_v2,
      resp_output = tv2_output task_v2,
      resp_failure_reason = tv2_failure_reason task_v2,
      resp_data_extraction_schema = tv2_extracted_information_schema task_v2,
      resp_error_code_mapping = tv2_error_code_mapping task_v2,
      resp_proxy_location = tv2_proxy_location task_v2,
      resp_totp_identifier = tv2_totp_identifier task_v2,
      resp_totp_url = tv2_totp_verification_url task_v2,
      resp_webhook_url = tv2_webhook_callback_url task_v2,
      resp_max_steps = None\<rparr>"

text \<open>The arguments \<^verbatim>\<open>run_task\<close> passes to the initialization of a v2 run.\<close>

definition run_task_init_args :: "task_run_request \<Rightarrow> organization \<Rightarrow> initialize_task_v2_args" where
  "run_task_init_args run_request current_org =
     \<lparr>init_organization = current_org,
      init_user_prompt = req_goal run_request,
      init_user_url = req_url run_request,
      init_totp_identifier = req_totp_identifier run_request,
      init_totp_verification_url = req_totp_url run_request,
      init_webhook_callback_url = req_webhook_url run_request,
      init_proxy_location = req_proxy_location run_request,
      init_publish_workflow = req_publish_workflow run_request,
      init_create_task_run = True,
      init_extracted_information_schema = req_data_extraction_schema run_request,
      init_error_code_mapping = req_error_code_mapping run_request\<rparr>"

text \<open>
  \<^verbatim>\<open>run_task\<close>, the unified dispatch endpoint. A selector that is neither v1 nor v2
  falls through both \<^verbatim>\<open>if\<close> statements to the final \<^verbatim>\<open>raise\<close>.
\<close>

definition run_task ::
  "dispatch_env \<Rightarrow> task_run_request \<Rightarrow> organization \<Rightarrow> string option \<Rightarrow> state \<Rightarrow>
   (http_exception + task_run_response) \<times> state" where
  "run_task env run_request current_org x_api_key s0 =
     (let s1 = analytics_capture ''skyvern-oss-run-task'' [(''url'', req_url run_request)] s0;
          s2 = add_effect (PermissionCheck current_org (req_browser_session_id run_request)) s1
      in case permission_check env current_org (req_browser_session_id run_request) of
           Some e \<Rightarrow> (Inl e, s2)
         | None \<Rightarrow>
             if req_engine run_request = skyvern_v1 then
               (let (task_v1_request, s3) = v1_task_request env run_request current_org s2;
                    task_v1_response =
                      task_v1_run_task env task_v1_request current_org
                        (req_max_steps run_request) x_api_key;
                    s4 = add_effect
                           (RunTaskV1 task_v1_request current_org (req_max_steps run_request)
                              x_api_key) s3
                in (Inr (v1_response task_v1_response), s4))
             else if req_engine run_request = skyvern_v2 then
               (let s3 = add_effect (InitializeTaskV2 (run_task_init_args run_request current_org)) s2
                in case initialize_task_v2 env (run_task_init_args run_request current_org) of
                     Inl LLMProviderError \<Rightarrow>
                       (Inl llm_failure_exception, add_effect (LogRecord llm_failure_log) s3)
                   | Inr task_v2 \<Rightarrow>
                       (Inr (v2_response run_request task_v2),
                        add_effect
                          (ExecuteTaskV2 (organization_id current_org) (observer_cruise_id task_v2)
                             (map_option HInt (req_max_steps run_request))
                             (req_browser_session_id run_request)) s3))
             else
               (Inl (HTTPException 400
                       (''Invalid agent engine: '' @ engine_text (req_engine run_request))),
                s2))"

text \<open>The arguments \<^verbatim>\<open>run_task_v2\<close> passes to the initialization of a v2 run.\<close>

definition run_task_v2_init_args :: "task_v2_request \<Rightarrow> organization \<Rightarrow> initialize_task_v2_args" where
  "run_task_v2_init_args data org =
     \<lparr>init_organization = org,
      init_user_prompt = v2r_user_prompt data,
      init_user_url = (if truthy_str (v2r_url data) then v2r_url data else None),
      init_totp_identifier = v2r_totp_identifier data,
      init_totp_verification_url = v2r_totp_verification_url data,
      init_webhook_callback_url = v2r_webhook_callback_url data,
      init_proxy_location = v2r_proxy_location data,
      init_publish_workflow = v2r_publish_workflow data,
      init_create_task_run = True,
      init_extracted_information_schema = v2r_extracted_information_schema data,
      init_error_code_mapping = v2r_error_code_mapping data\<rparr>"

text \<open>
  \<^verbatim>\<open>run_task_v2\<close>, the dedicated v2 endpoint, with its two override headers. It
  returns the dump of the run record; the record itself stands for the dump.
\<close>

definition run_task_v2 ::
  "dispatch_env \<Rightarrow> task_v2_request \<Rightarrow> organization \<Rightarrow> header_value option \<Rightarrow>
   header_value option \<Rightarrow> state \<Rightarrow> (http_exception + task_v2) \<times> state" where
  "run_task_v2 env data org x_max_iterations_override x_max_steps_override s0 =
     (let s1 = (if truthy_header x_max_iterations_override \<or> truthy_header x_max_steps_override
                then add_effect
                       (LogRecord (Log Info ''Overriding max steps for task v2''
                          [(''max_iterations_override'', log_header x_max_iterations_override),
                           (''max_steps_override'', log_header x_max_steps_override)])) s0
                else s0);
          s2 = add_effect (PermissionCheck org (v2r_browser_session_id data)) s1
      in case permission_check env org (v2r_browser_session_id data) of
           Some e \<Rightarrow> (Inl e, s2)
         | None \<Rightarrow>
             (let s3 = add_effect (InitializeTaskV2 (run_task_v2_init_args data org)) s2
              in case initialize_task_v2 env (run_task_v2_init_args data org) of
                   Inl LLMProviderError \<Rightarrow>
                     (Inl llm_failure_exception, add_effect (LogRecord llm_failure_log) s3)
                 | Inr task_v2 \<Rightarrow>
                     (let s4 = analytics_capture ''skyvern-oss-agent-task-v2''
                                 [(''url'', tv2_url task_v2)] s3;
                          s5 = add_effect
                                 (ExecuteTaskV2 (organization_id org) (observer_cruise_id task_v2)
                                    (py_or truthy_header x_max_steps_override
                                       x_max_iterations_override)
                                    (v2r_browser_session_id data)) s4
                      in (Inr task_v2, s5))))"


fun is_execute_task_v2 :: "effect \<Rightarrow> bool" where
  "is_execute_task_v2 (ExecuteTaskV2 org tid n b) = True"
| "is_execute_task_v2 e = False"

section \<open>Example inputs\<close>

text \<open>
  A parent run with children in the statuses running, running, completed, canceled (the
  cascade example of the spec), and one unrelated run.
\<close>

definition ex_org :: organization where
  "ex_org = \<lparr>organization_id = ''o_1''\<rparr>"

definition ex_parent :: workflow_run where
  "ex_parent = \<lparr>workflow_run_id = ''wr_p'', wr_organization_id = ''o_1'', status = running,
                 parent_workflow_run_id = None\<rparr>"

definition ex_child :: "string \<Rightarrow> run_status \<Rightarrow> workflow_run" where
  "ex_child wid st = \<lparr>workflow_run_id = wid, wr_organization_id = ''o_1'', status = st,
                      parent_workflow_run_id = Some ''wr_p''\<rparr>"

definition ex_state :: state where
  "ex_state = \<lparr>workflow_runs =
       [ex_child ''wr_1'' running, ex_child ''wr_2'' running, ex_parent,
        ex_child ''wr_3'' completed, ex_child ''wr_4'' canceled,
        \<lparr>workflow_run_id = ''wr_5'', wr_organization_id = ''o_1'', status = queued,
         parent_workflow_run_id = None\<rparr>],
     tasks = [\<lparr>task_id = ''tsk_1'', task_organization_id = ''o_1'', task_status = running\<rparr>],
     latest_step = (\<lambda>tid org. if tid = ''tsk_1'' then Some \<lparr>step_id = ''stp_9''\<rparr> else None),
     effects = []\<rparr>"

text \<open>
  The splicing example of the spec: a run with blocks at times 1 (a form), 2 (a TaskV2
  block pointing at the nested run \<open>wr_n\<close>) and 3 (a form); the nested run has two blocks
  at times 21 and 22 and one thought at time 20; the raw timeline of the parent also holds
  an entry with no block and a TaskV2 block with no nested run id.
\<close>

definition ex_entry :: "string \<Rightarrow> block_type \<Rightarrow> string option \<Rightarrow> int \<Rightarrow> workflow_run_timeline" where
  "ex_entry bid bt nested t =
     WorkflowRunTimeline type_block
       (Some \<lparr>workflow_run_block_id = bid, block_type = bt, block_workflow_run_id = nested\<rparr>)
       None None t t"

definition ex_thought :: "string \<Rightarrow> int \<Rightarrow> workflow_run_timeline" where
  "ex_thought oid t =
     WorkflowRunTimeline type_thought None (Some \<lparr>observer_thought_id = oid\<rparr>) None t t"

definition ex_task_v2 :: task_v2 where
  "ex_task_v2 = \<lparr>observer_cruise_id = ''oc_1'', tv2_status = running, tv2_prompt = Some ''find it'',
     tv2_url = None, tv2_output = None, tv2_failure_reason = None,
     tv2_webhook_callback_url = None, tv2_totp_identifier = None,
     tv2_totp_verification_url = None, tv2_proxy_location = None,
     tv2_error_code_mapping = None, tv2_extracted_information_schema = None,
     tv2_created_at = 20, tv2_modified_at = 20\<rparr>"

definition ex_store :: timeline_store where
  "ex_store = \<lparr>
     get_task_v2_by_workflow_run_id =
       (\<lambda>wid org. if wid = ''wr_n'' then Some ex_task_v2 else None),
     service_get_workflow_run_timeline =
       (\<lambda>wid org.
          if wid = ''wr_p'' then
            [ex_entry ''b1'' (other_block_type ''form'') None 1,
             WorkflowRunTimeline type_block None None None 5 5,
             ex_entry ''b2'' TaskV2 (Some ''wr_n'') 2,
             ex_entry ''b4'' TaskV2 None 4,
             ex_entry ''b3'' (other_block_type ''form'') None 3]
          else if wid = ''wr_n'' then
            [ex_entry ''n1'' (other_block_type ''navigation'') None 21,
             ex_entry ''n2'' (other_block_type ''extraction'') None 22]
          else []),
     get_thought_timelines =
       (\<lambda>tid org. if tid = ''oc_1'' then [ex_thought ''ot_1'' 20] else [])\<rparr>"

text \<open>What the aggregator returns for the parent run of the example.\<close>

definition ex_timeline :: "workflow_run_timeline list" where
  "ex_timeline =
     [ex_entry ''n2'' (other_block_type ''extraction'') None 22,
      ex_entry ''n1'' (other_block_type ''navigation'') None 21,
      ex_thought ''ot_1'' 20,
      ex_entry ''b3'' (other_block_type ''form'') None 3,
      ex_entry ''b1'' (other_block_type ''form'') None 1]"

definition ex_warnings :: "log_record list" where
  "ex_warnings =
     [Log Warning ''Block workflow run id is not set for task_v2 block''
        [(''workflow_run_id'', LStr ''wr_p''), (''organization_id'', LStr ''o_1''),
         (''task_v2_id'', LNone)]]"

text \<open>
  Collaborators for the dispatcher: the permission check passes, task generation returns
  a fixed task, and the initialization of a v2 run fails for the prompt \<open>fail\<close>.
\<close>

definition ex_generation :: task_generation where
  "ex_generation = \<lparr>gen_url = Some ''https://example.com'', gen_navigation_goal = Some ''open it'',
     gen_navigation_payload = None, gen_data_extraction_goal = Some ''read it'',
     gen_extracted_information_schema = Some (SchemaStr ''generated'')\<rparr>"

definition ex_v1_response :: "task_request \<Rightarrow> int option \<Rightarrow> task_v1_response" where
  "ex_v1_response r n = \<lparr>t1_task_id = ''tsk_9'', t1_title = tr_title r, t1_status = created,
     t1_created_at = 7, t1_modified_at = 7, t1_navigation_goal = tr_navigation_goal r,
     t1_url = tr_url r, t1_extracted_information = None, t1_failure_reason = None,
     t1_extracted_information_schema = tr_extracted_information_schema r,
     t1_error_code_mapping = tr_error_code_mapping r, t1_proxy_location = tr_proxy_location r,
     t1_totp_identifier = None, t1_totp_verification_url = None,
     t1_webhook_callback_url = None, t1_max_steps_per_run = n\<rparr>"

definition ex_env :: dispatch_env where
  "ex_env = \<lparr>permission_check = (\<lambda>org session. None),
     generate_task = (\<lambda>prompt org. ex_generation),
     task_v1_run_task = (\<lambda>r org n k. ex_v1_response r n),
     initialize_task_v2 =
       (\<lambda>a. if init_user_prompt a = ''fail'' then Inl LLMProviderError else Inr ex_task_v2)\<rparr>"


definition ex_request :: "run_engine \<Rightarrow> string \<Rightarrow> string option \<Rightarrow> schema option \<Rightarrow> task_run_request" where
  "ex_request e g u d = \<lparr>req_goal = g, req_url = u, req_title = None, req_engine = e,
     req_proxy_location = None, req_data_extraction_schema = d, req_error_code_mapping = None,
     req_max_steps = Some 10, req_webhook_url = None, req_totp_identifier = None,
     req_totp_url = None, req_browser_session_id = None, req_publish_workflow = False\<rparr>"

definition ex_v2_request :: "string \<Rightarrow> task_v2_request" where
  "ex_v2_request p = \<lparr>v2r_user_prompt = p, v2r_url = None, v2r_totp_identifier = None,
     v2r_totp_verification_url = None, v2r_webhook_callback_url = None,
     v2r_proxy_location = None, v2r_publish_workflow = False,
     v2r_extracted_information_schema = None, v2r_error_code_mapping = None,
     v2r_browser_session_id = None\<rparr>"

section \<open>Properties\<close>

subsection \<open>Cascade cancellation\<close>

lemma cancel_children_runs:
  "workflow_runs (cancel_children cs s) =
     map (\<lambda>r. if workflow_run_id r \<in> workflow_run_id ` {c \<in> set cs. status c \<in> {running, created, queued}}
              then r\<lparr>status := canceled\<rparr> else r) (workflow_runs s)"
proof (induction cs arbitrary: s)
  case Nil
  then show ?case by (simp add: map_idI)
next
  case (Cons c cs)
  show ?case
  proof (cases "status c \<in> {running, created, queued}")
    case True
    then show ?thesis
      using Cons.IH [of "mark_workflow_run_as_canceled (workflow_run_id c) s"]
      by (auto simp: mark_workflow_run_as_canceled_def)
  next
    case False
    then show ?thesis using Cons.IH [of s] by auto
  qed
qed

lemma cancel_children_effects:
  "effects (cancel_children cs s) =
     effects s @ map (\<lambda>c. MarkWorkflowRunAsCanceled (workflow_run_id c))
                   (filter (\<lambda>c. status c \<in> {running, created, queued}) cs)"
  by (induction cs arbitrary: s) (auto simp: mark_workflow_run_as_canceled_def)

lemma cancel_children_tasks:
  "tasks (cancel_children cs s) = tasks s \<and> latest_step (cancel_children cs s) = latest_step s"
  by (induction cs arbitrary: s) (auto simp: mark_workflow_run_as_canceled_def)

lemma find_Some_mem: "find P xs = Some x \<Longrightarrow> x \<in> set xs \<and> P x"
  by (induction xs) (auto split: if_splits)

lemma distinct_map_eq: "distinct (map f xs) \<Longrightarrow> x \<in> set xs \<Longrightarrow> y \<in> set xs \<Longrightarrow> f x = f y \<Longrightarrow> x = y"
  by (meson distinct_map inj_on_def)

text \<open>
  C1. Let the target run exist for the caller's organization, let the ids of the run table
  be distinct (the id is its key) and let the target not be its own parent. Then
  \<open>cancel_workflow_run\<close> returns normally and, in the state it leaves:
  every row of the table that is the target, or a direct child of the target whose status
  is running, created or queued, has status canceled, and every other row is as before
  (first conjunct); in particular each direct child with one of these three statuses is
  canceled, each direct child with any other status is in the table unchanged, and the
  target is canceled whatever its status was. The trace grows by one status write per
  canceled child, in the order of the children, then the status write of the target, then
  one webhook call for the target: the webhook call is the last effect, and it is the
  only webhook call added.
\<close>

theorem cancel_workflow_run_cascade:
  assumes found: "get_workflow_run s wid (organization_id current_org) = Some wr"
    and dist: "distinct (map workflow_run_id (workflow_runs s))"
    and noself: "parent_workflow_run_id wr \<noteq> Some wid"
  shows "\<exists>s'. cancel_workflow_run wid current_org x_api_key s = (Inr (), s') \<and>
    workflow_runs s' =
      map (\<lambda>r. if workflow_run_id r = wid \<or>
                  (r \<in> set (get_workflow_runs_by_parent_workflow_run_id s (organization_id current_org) wid) \<and>
                   status r \<in> {running, created, queued})
               then r\<lparr>status := canceled\<rparr> else r) (workflow_runs s) \<and>
    (\<forall>c \<in> set (get_workflow_runs_by_parent_workflow_run_id s (organization_id current_org) wid).
       if status c \<in> {running, created, queued}
       then c\<lparr>status := canceled\<rparr> \<in> set (workflow_runs s')
       else c \<in> set (workflow_runs s')) \<and>
    wr\<lparr>status := canceled\<rparr> \<in> set (workflow_runs s') \<and>
    effects s' = effects s @
      map (\<lambda>c. MarkWorkflowRunAsCanceled (workflow_run_id c))
        (filter (\<lambda>c. status c \<in> {running, created, queued})
          (get_workflow_runs_by_parent_workflow_run_id s (organization_id current_org) wid)) @
      [MarkWorkflowRunAsCanceled wid, ExecuteWorkflowWebhook wr x_api_key] \<and>
    filter is_workflow_webhook (effects s') =
      filter is_workflow_webhook (effects s) @ [ExecuteWorkflowWebhook wr x_api_key] \<and>
    tasks s' = tasks s"
proof -
  define org where "org = organization_id current_org"
  define cs where "cs = get_workflow_runs_by_parent_workflow_run_id s org wid"
  define s' where "s' = execute_workflow_webhook wr x_api_key
                          (mark_workflow_run_as_canceled wid (cancel_children cs s))"
  have res: "cancel_workflow_run wid current_org x_api_key s = (Inr (), s')"
    using found by (simp add: cancel_workflow_run_def s'_def cs_def org_def Let_def)
  have wr_in: "wr \<in> set (workflow_runs s)" and wr_id: "workflow_run_id wr = wid"
    using find_Some_mem [OF found [unfolded get_workflow_run_def]] by simp_all
  have cs_sub: "set cs \<subseteq> set (workflow_runs s)"
    and cs_parent: "\<And>c. c \<in> set cs \<Longrightarrow> parent_workflow_run_id c = Some wid"
    by (auto simp: cs_def get_workflow_runs_by_parent_workflow_run_id_def)
  have uniq: "\<And>x y. x \<in> set (workflow_runs s) \<Longrightarrow> y \<in> set (workflow_runs s) \<Longrightarrow>
                workflow_run_id x = workflow_run_id y \<Longrightarrow> x = y"
    using distinct_map_eq [OF dist] by blast
  have runs: "workflow_runs s' =
      map (\<lambda>r. if workflow_run_id r = wid \<or> (r \<in> set cs \<and> status r \<in> {running, created, queued})
               then r\<lparr>status := canceled\<rparr> else r) (workflow_runs s)"
  proof -
    have "workflow_runs s' =
        map (\<lambda>r. if workflow_run_id r = wid then r\<lparr>status := canceled\<rparr> else r)
          (workflow_runs (cancel_children cs s))"
      by (simp add: s'_def execute_workflow_webhook_def mark_workflow_run_as_canceled_def)
    also have "\<dots> = map (\<lambda>r. if workflow_run_id r = wid \<or> (r \<in> set cs \<and> status r \<in> {running, created, queued})
               then r\<lparr>status := canceled\<rparr> else r) (workflow_runs s)"
      unfolding cancel_children_runs map_map
    proof (rule map_cong [OF refl])
      fix r assume r: "r \<in> set (workflow_runs s)"
      have iff: "workflow_run_id r \<in> workflow_run_id ` {c \<in> set cs. status c \<in> {running, created, queued}}
                 \<longleftrightarrow> (r \<in> set cs \<and> status r \<in> {running, created, queued})"
        using uniq [OF r] cs_sub by (smt (verit) image_iff mem_Collect_eq subsetD)
      show "((\<lambda>r. if workflow_run_id r = wid then r\<lparr>status := canceled\<rparr> else r) \<circ>
             (\<lambda>r. if workflow_run_id r \<in> workflow_run_id ` {c \<in> set cs. status c \<in> {running, created, queued}}
                  then r\<lparr>status := canceled\<rparr> else r)) r =
            (if workflow_run_id r = wid \<or> (r \<in> set cs \<and> status r \<in> {running, created, queued})
             then r\<lparr>status := canceled\<rparr> else r)"
        by (simp only: comp_def iff) auto
    qed
    finally show ?thesis .
  qed
  have children: "\<forall>c \<in> set cs. if status c \<in> {running, created, queued}
       then c\<lparr>status := canceled\<rparr> \<in> set (workflow_runs s')
       else c \<in> set (workflow_runs s')"
  proof
    fix c assume c: "c \<in> set cs"
    then have c_in: "c \<in> set (workflow_runs s)" using cs_sub by blast
    have "workflow_run_id c \<noteq> wid"
    proof
      assume "workflow_run_id c = wid"
      then have "c = wr" using uniq [OF c_in wr_in] wr_id by simp
      then show False using cs_parent [OF c] noself by simp
    qed
    then show "if status c \<in> {running, created, queued}
       then c\<lparr>status := canceled\<rparr> \<in> set (workflow_runs s')
       else c \<in> set (workflow_runs s')"
      using c c_in unfolding runs set_map by (auto intro!: rev_image_eqI [of c])
  qed
  have target: "wr\<lparr>status := canceled\<rparr> \<in> set (workflow_runs s')"
    using wr_in wr_id unfolding runs set_map by (auto intro!: rev_image_eqI [of wr])
  have eff: "effects s' = effects s @
      map (\<lambda>c. MarkWorkflowRunAsCanceled (workflow_run_id c))
        (filter (\<lambda>c. status c \<in> {running, created, queued}) cs) @
      [MarkWorkflowRunAsCanceled wid, ExecuteWorkflowWebhook wr x_api_key]"
    by (simp add: s'_def execute_workflow_webhook_def mark_workflow_run_as_canceled_def
        cancel_children_effects)
  have hooks: "filter is_workflow_webhook (effects s') =
      filter is_workflow_webhook (effects s) @ [ExecuteWorkflowWebhook wr x_api_key]"
    unfolding eff by (simp add: filter_map comp_def)
  have tasks: "tasks s' = tasks s"
    by (simp add: s'_def execute_workflow_webhook_def mark_workflow_run_as_canceled_def
        cancel_children_tasks)
  show ?thesis
    using res runs children target eff hooks tasks unfolding cs_def org_def by blast
qed

lemma ex_children:
  "get_workflow_runs_by_parent_workflow_run_id ex_state (organization_id ex_org) ''wr_p'' =
     [ex_child ''wr_1'' running, ex_child ''wr_2'' running,
      ex_child ''wr_3'' completed, ex_child ''wr_4'' canceled]"
  by (simp add: get_workflow_runs_by_parent_workflow_run_id_def ex_state_def ex_org_def
        ex_parent_def ex_child_def)

theorem cancel_workflow_run_cascade_witness:
  "get_workflow_run ex_state ''wr_p'' (organization_id ex_org) = Some ex_parent \<and>
   distinct (map workflow_run_id (workflow_runs ex_state)) \<and>
   parent_workflow_run_id ex_parent \<noteq> Some ''wr_p'' \<and>
   (\<exists>s'. cancel_workflow_run ''wr_p'' ex_org (Some ''key'') ex_state = (Inr (), s') \<and>
      map status (workflow_runs s') = [canceled, canceled, canceled, completed, canceled, queued] \<and>
      effects s' = [MarkWorkflowRunAsCanceled ''wr_1'', MarkWorkflowRunAsCanceled ''wr_2'',
                    MarkWorkflowRunAsCanceled ''wr_p'',
                    ExecuteWorkflowWebhook ex_parent (Some ''key'')])"
proof -
  have h1: "get_workflow_run ex_state ''wr_p'' (organization_id ex_org) = Some ex_parent"
    by (simp add: get_workflow_run_def ex_state_def ex_org_def ex_parent_def ex_child_def)
  have h2: "distinct (map workflow_run_id (workflow_runs ex_state))"
    by (simp add: ex_state_def ex_parent_def ex_child_def)
  have h3: "parent_workflow_run_id ex_parent \<noteq> Some ''wr_p''"
    by (simp add: ex_parent_def)
  have "\<exists>s'. cancel_workflow_run ''wr_p'' ex_org (Some ''key'') ex_state = (Inr (), s') \<and>
      map status (workflow_runs s') = [canceled, canceled, canceled, completed, canceled, queued] \<and>
      effects s' = [MarkWorkflowRunAsCanceled ''wr_1'', MarkWorkflowRunAsCanceled ''wr_2'',
                    MarkWorkflowRunAsCanceled ''wr_p'',
                    ExecuteWorkflowWebhook ex_parent (Some ''key'')]"
  proof -
    from cancel_workflow_run_cascade [OF h1 h2 h3, of "Some ''key''"]
    obtain s' where P: "cancel_workflow_run ''wr_p'' ex_org (Some ''key'') ex_state = (Inr (), s') \<and>
    workflow_runs s' =
      map (\<lambda>r. if workflow_run_id r = ''wr_p'' \<or>
                  (r \<in> set (get_workflow_runs_by_parent_workflow_run_id ex_state (organization_id ex_org) ''wr_p'') \<and>
                   status r \<in> {running, created, queued})
               then r\<lparr>status := canceled\<rparr> else r) (workflow_runs ex_state) \<and>
    (\<forall>c \<in> set (get_workflow_runs_by_parent_workflow_run_id ex_state (organization_id ex_org) ''wr_p'').
       if status c \<in> {running, created, queued}
       then c\<lparr>status := canceled\<rparr> \<in> set (workflow_runs s')
       else c \<in> set (workflow_runs s')) \<and>
    ex_parent\<lparr>status := canceled\<rparr> \<in> set (workflow_runs s') \<and>
    effects s' = effects ex_state @
      map (\<lambda>c. MarkWorkflowRunAsCanceled (workflow_run_id c))
        (filter (\<lambda>c. status c \<in> {running, created, queued})
          (get_workflow_runs_by_parent_workflow_run_id ex_state (organization_id ex_org) ''wr_p'')) @
      [MarkWorkflowRunAsCanceled ''wr_p'', ExecuteWorkflowWebhook ex_parent (Some ''key'')] \<and>
    filter is_workflow_webhook (effects s') =
      filter is_workflow_webhook (effects ex_state) @ [ExecuteWorkflowWebhook ex_parent (Some ''key'')] \<and>
    tasks s' = tasks ex_state" ..
    from P have r: "cancel_workflow_run ''wr_p'' ex_org (Some ''key'') ex_state = (Inr (), s')"
      by (rule conjunct1)
    from P have runs: "workflow_runs s' =
      map (\<lambda>r. if workflow_run_id r = ''wr_p'' \<or>
                  (r \<in> set (get_workflow_runs_by_parent_workflow_run_id ex_state (organization_id ex_org) ''wr_p'') \<and>
                   status r \<in> {running, created, queued})
               then r\<lparr>status := canceled\<rparr> else r) (workflow_runs ex_state)"
      by (rule conjunct2 [THEN conjunct1])
    from P have eff: "effects s' = effects ex_state @
      map (\<lambda>c. MarkWorkflowRunAsCanceled (workflow_run_id c))
        (filter (\<lambda>c. status c \<in> {running, created, queued})
          (get_workflow_runs_by_parent_workflow_run_id ex_state (organization_id ex_org) ''wr_p'')) @
      [MarkWorkflowRunAsCanceled ''wr_p'', ExecuteWorkflowWebhook ex_parent (Some ''key'')]"
      by (rule conjunct2 [THEN conjunct2, THEN conjunct2, THEN conjunct2, THEN conjunct1])
    have a: "map status (workflow_runs s') = [canceled, canceled, canceled, completed, canceled, queued]"
      unfolding runs ex_children
      by (simp add: ex_state_def ex_parent_def ex_child_def)
    have b: "effects s' = [MarkWorkflowRunAsCanceled ''wr_1'', MarkWorkflowRunAsCanceled ''wr_2'',
                    MarkWorkflowRunAsCanceled ''wr_p'',
                    ExecuteWorkflowWebhook ex_parent (Some ''key'')]"
      unfolding eff ex_children
      by (simp add: ex_state_def ex_child_def)
    from r a b show ?thesis by (intro exI [of _ s'] conjI)
  qed
  with h1 h2 h3 show ?thesis by (intro conjI)
qed

subsection \<open>Cancelling a single task\<close>

text \<open>
  C9. \<open>cancel_task\<close> looks the task up by id within the caller's organization. When there
  is none, it raises the 404 exception; the task table, the run table and the step query
  are as before, and the trace holds no status write and no webhook call (its only new
  entry is the analytics capture the handler starts with). When the task exists, the
  handler returns normally, every row with that id has status canceled, and the trace
  grows by the analytics capture, then the status write, then one webhook call for the
  updated task with its latest step. The state \<open>s\<close> is arbitrary, so the webhook is called
  whatever webhook calls the trace already holds.
\<close>

theorem cancel_task_not_found_or_canceled:
  "cancel_task tid current_org x_api_key s =
     (case get_task s tid (organization_id current_org) of
        None \<Rightarrow>
          (Inl (HTTPException 404 (''Task not found '' @ tid)),
           s\<lparr>effects := effects s @ [AnalyticsCapture ''skyvern-oss-agent-task-get'' []]\<rparr>)
      | Some task_obj \<Rightarrow>
          (Inr (),
           s\<lparr>tasks := map (\<lambda>t. if task_id t = tid then t\<lparr>task_status := canceled\<rparr> else t) (tasks s),
             effects := effects s @
               [AnalyticsCapture ''skyvern-oss-agent-task-get'' [],
                UpdateTask tid canceled,
                ExecuteTaskWebhook (task_obj\<lparr>task_status := canceled\<rparr>)
                  (latest_step s tid (organization_id current_org)) x_api_key]\<rparr>))"
proof (cases "get_task s tid (organization_id current_org)")
  case None
  then show ?thesis
    by (simp add: cancel_task_def analytics_capture_def get_task_def)
next
  case (Some task_obj)
  then have "task_id task_obj = tid"
    using find_Some_mem [OF Some [unfolded get_task_def]] by simp
  with Some show ?thesis
    by (simp add: cancel_task_def analytics_capture_def get_task_def update_task_def
        execute_task_webhook_def)
qed

theorem cancel_task_not_found_or_canceled_witness:
  "cancel_task ''tsk_0'' ex_org (Some ''key'') ex_state =
     (Inl (HTTPException 404 ''Task not found tsk_0''),
      ex_state\<lparr>effects := [AnalyticsCapture ''skyvern-oss-agent-task-get'' []]\<rparr>) \<and>
   cancel_task ''tsk_1'' ex_org (Some ''key'') ex_state =
     (Inr (),
      ex_state\<lparr>tasks := [\<lparr>task_id = ''tsk_1'', task_organization_id = ''o_1'', task_status = canceled\<rparr>],
        effects := [AnalyticsCapture ''skyvern-oss-agent-task-get'' [],
                    UpdateTask ''tsk_1'' canceled,
                    ExecuteTaskWebhook
                      \<lparr>task_id = ''tsk_1'', task_organization_id = ''o_1'', task_status = canceled\<rparr>
                      (Some \<lparr>step_id = ''stp_9''\<rparr>) (Some ''key'')]\<rparr>)"
proof -
  have g0: "get_task ex_state ''tsk_0'' (organization_id ex_org) = None"
    by (simp add: get_task_def ex_state_def ex_org_def)
  have g1: "get_task ex_state ''tsk_1'' (organization_id ex_org) =
              Some \<lparr>task_id = ''tsk_1'', task_organization_id = ''o_1'', task_status = running\<rparr>"
    by (simp add: get_task_def ex_state_def ex_org_def)
  have e: "effects ex_state = []" and t: "tasks ex_state =
      [\<lparr>task_id = ''tsk_1'', task_organization_id = ''o_1'', task_status = running\<rparr>]"
    and l: "latest_step ex_state ''tsk_1'' (organization_id ex_org) = Some \<lparr>step_id = ''stp_9''\<rparr>"
    by (simp_all add: ex_state_def)
  show ?thesis
    using cancel_task_not_found_or_canceled [of "''tsk_0''" ex_org "Some ''key''" ex_state]
      cancel_task_not_found_or_canceled [of "''tsk_1''" ex_org "Some ''key''" ex_state]
    by (simp add: g0 g1 e t l)
qed

subsection \<open>The timeline aggregator: the loop and the recursion\<close>

lemma flatten_blocks_acc:
  "flatten_blocks recur org_id run_id tv xs (f @ f', l @ l') =
     map_option (\<lambda>(a, b). (f @ a, l @ b)) (flatten_blocks recur org_id run_id tv xs (f', l'))"
proof (induction xs arbitrary: f' l')
  case Nil
  show ?case by simp
next
  case (Cons t rest)
  note IH = Cons.IH
  show ?case
  proof (cases "block t")
    case None
    then show ?thesis using IH [of f' l'] by simp
  next
    case (Some b)
    show ?thesis
    proof (cases "block_type b \<noteq> TaskV2")
      case True
      then show ?thesis using Some IH [of "f' @ [t]" l'] by simp
    next
      case tv2: False
      show ?thesis
      proof (cases "truthy_str (block_workflow_run_id b)")
        case False
        then show ?thesis
          using Some tv2 IH [of f' "l' @ [block_workflow_run_id_warning run_id org_id tv]"]
          by simp
      next
        case True
        show ?thesis
        proof (cases "recur (the (block_workflow_run_id b))")
          case None
          then show ?thesis using Some tv2 True by simp
        next
          case (Some r)
          obtain wb lg where r: "r = (wb, lg)" by (cases r)
          show ?thesis
            using \<open>block t = Some b\<close> tv2 True Some r IH [of "f' @ wb" "l' @ lg"] by simp
        qed
      qed
    qed
  qed
qed

lemma flatten_blocks_from_empty:
  "flatten_blocks recur org_id run_id tv xs (f, l) =
     map_option (\<lambda>(a, b). (f @ a, l @ b)) (flatten_blocks recur org_id run_id tv xs ([], []))"
  using flatten_blocks_acc [of recur org_id run_id tv xs f "[]" l "[]"] by simp

lemma flatten_blocks_append:
  "flatten_blocks recur org_id run_id tv (xs @ ys) acc =
     (case flatten_blocks recur org_id run_id tv xs acc of
        None \<Rightarrow> None
      | Some acc' \<Rightarrow> flatten_blocks recur org_id run_id tv ys acc')"
proof (induction xs arbitrary: acc)
  case Nil
  show ?case by (cases acc) simp
next
  case (Cons t rest)
  obtain f l where acc: "acc = (f, l)" by (cases acc)
  show ?case
    unfolding acc
    by (auto simp: Cons.IH split: option.splits)
qed

lemma flatten_blocks_spliced:
  "flatten_blocks recur org_id run_id tv xs ([], []) = Some (final, logs) \<Longrightarrow>
     final = concat (map (spliced_entries recur) xs) \<and>
     (\<forall>t \<in> set xs. \<forall>b. block t = Some b \<and> block_type b = TaskV2 \<and>
          truthy_str (block_workflow_run_id b) \<longrightarrow>
          recur (the (block_workflow_run_id b)) \<noteq> None)"
proof (induction xs arbitrary: final logs)
  case Nil
  then show ?case by simp
next
  case (Cons t rest)
  obtain f0 l0 where hd: "flatten_blocks recur org_id run_id tv [t] ([], []) = Some (f0, l0)"
    and tl: "flatten_blocks recur org_id run_id tv rest (f0, l0) = Some (final, logs)"
    using Cons.prems flatten_blocks_append [of recur org_id run_id tv "[t]" rest "([], [])"]
    by (auto split: option.splits)
  from tl obtain f1 l1 where
    rest: "flatten_blocks recur org_id run_id tv rest ([], []) = Some (f1, l1)"
    and final: "final = f0 @ f1"
    using flatten_blocks_from_empty [of recur org_id run_id tv rest f0 l0] by auto
  from Cons.IH [OF rest] have
    f1: "f1 = concat (map (spliced_entries recur) rest)" and
    ok: "\<forall>t \<in> set rest. \<forall>b. block t = Some b \<and> block_type b = TaskV2 \<and>
          truthy_str (block_workflow_run_id b) \<longrightarrow>
          recur (the (block_workflow_run_id b)) \<noteq> None"
    by blast+
  from hd have f0: "f0 = spliced_entries recur t"
    and ok0: "\<forall>b. block t = Some b \<and> block_type b = TaskV2 \<and>
          truthy_str (block_workflow_run_id b) \<longrightarrow>
          recur (the (block_workflow_run_id b)) \<noteq> None"
    by (auto simp: spliced_entries_def split: option.splits if_splits)
  show ?case using final f0 f1 ok ok0 by simp
qed

lemma accumulated_timeline_spliced:
  assumes "accumulated_timeline recur db org_id run_id = Some (final, logs)"
  shows "final = concat (map (spliced_entries recur)
                    (service_get_workflow_run_timeline db run_id org_id)) @
                 thought_entries db org_id run_id \<and>
         (\<forall>t \<in> set (service_get_workflow_run_timeline db run_id org_id).
           \<forall>b. block t = Some b \<and> block_type b = TaskV2 \<and>
             truthy_str (block_workflow_run_id b) \<longrightarrow>
             recur (the (block_workflow_run_id b)) \<noteq> None)"
proof -
  obtain f0 l0 where
    loop: "flatten_blocks recur org_id run_id (get_task_v2_by_workflow_run_id db run_id org_id)
             (service_get_workflow_run_timeline db run_id org_id) ([], []) = Some (f0, l0)"
    and final: "final = f0 @ thought_entries db org_id run_id"
    using assms
    by (auto simp: accumulated_timeline_def thought_entries_def Let_def
        split: option.splits if_splits)
  show ?thesis
    using flatten_blocks_spliced [OF loop] final by simp
qed

lemma set_sort_created_at_reverse [simp]: "set (sort_created_at_reverse xs) = set xs"
  by (simp add: sort_created_at_reverse_def)

lemma mset_sort_created_at_reverse [simp]: "mset (sort_created_at_reverse xs) = mset xs"
  by (simp add: sort_created_at_reverse_def)

lemma flatten_Some_Suc:
  "flatten_workflow_run_timeline fuel db org_id run_id = Some r \<Longrightarrow> \<exists>n. fuel = Suc n"
  by (cases fuel) simp_all

lemma flatten_Suc_accumulated:
  "flatten_workflow_run_timeline (Suc fuel) db org_id run_id = Some (out, logs) \<Longrightarrow>
     \<exists>final. accumulated_timeline (flatten_workflow_run_timeline fuel db org_id) db org_id run_id
                = Some (final, logs) \<and> out = sort_created_at_reverse final"
  by (auto split: option.splits)

lemma no_task_v2_entry_in_output:
  assumes th: "\<forall>tid. \<forall>e \<in> set (get_thought_timelines db tid org_id). \<not> is_task_v2_entry e"
  shows "flatten_workflow_run_timeline fuel db org_id run_id = Some (out, logs) \<Longrightarrow>
           \<forall>e \<in> set out. \<not> is_task_v2_entry e"
proof (induction fuel arbitrary: run_id out logs)
  case 0
  then show ?case by simp
next
  case (Suc fuel)
  from flatten_Suc_accumulated [OF Suc.prems] obtain final where
    acc: "accumulated_timeline (flatten_workflow_run_timeline fuel db org_id) db org_id run_id
            = Some (final, logs)" and out: "out = sort_created_at_reverse final"
    by blast
  have spl: "\<And>t e. e \<in> set (spliced_entries (flatten_workflow_run_timeline fuel db org_id) t)
               \<Longrightarrow> \<not> is_task_v2_entry e"
  proof -
    fix t e
    assume e: "e \<in> set (spliced_entries (flatten_workflow_run_timeline fuel db org_id) t)"
    show "\<not> is_task_v2_entry e"
    proof (cases "block t")
      case None
      then show ?thesis using e by (simp add: spliced_entries_def)
    next
      case (Some b)
      show ?thesis
      proof (cases "block_type b = TaskV2")
        case False
        then show ?thesis using e Some by (simp add: spliced_entries_def is_task_v2_entry_def)
      next
        case True
        show ?thesis
        proof (cases "truthy_str (block_workflow_run_id b)")
          case False
          then show ?thesis using e Some True by (simp add: spliced_entries_def)
        next
          case truthy: True
          show ?thesis
          proof (cases "flatten_workflow_run_timeline fuel db org_id (the (block_workflow_run_id b))")
            case None
            then show ?thesis using e Some True truthy by (simp add: spliced_entries_def)
          next
            case (Some r)
            obtain sub l where r: "r = (sub, l)" by (cases r)
            have "e \<in> set sub"
              using e \<open>block t = Some b\<close> True truthy Some r by (simp add: spliced_entries_def)
            then show ?thesis using Suc.IH [OF Some [unfolded r]] by blast
          qed
        qed
      qed
    qed
  qed
  have "\<forall>e \<in> set (thought_entries db org_id run_id). \<not> is_task_v2_entry e"
    using th by (auto simp: thought_entries_def split: option.splits if_splits)
  then show ?case
    unfolding out accumulated_timeline_spliced [OF acc, THEN conjunct1]
    using spl by auto
qed

lemma mset_spliced_subset:
  "t \<in> set xs \<Longrightarrow> mset (f t) \<subseteq># mset (concat (map f xs))"
proof (induction xs)
  case Nil
  then show ?case by simp
next
  case (Cons x xs)
  show ?case
  proof (cases "t = x")
    case True
    then show ?thesis by simp
  next
    case False
    with Cons have "mset (f t) \<subseteq># mset (concat (map f xs))" by simp
    then show ?thesis by (simp add: subset_mset.add_increasing)
  qed
qed

lemma sorted_wrt_sort_created_at_reverse:
  "sorted_wrt (\<lambda>a b. created_at b \<le> created_at a) (sort_created_at_reverse xs)"
proof -
  have "sorted (map created_at (sort_key created_at (rev xs)))"
    by (rule sorted_sort_key)
  then have "sorted_wrt (\<lambda>a b. created_at a \<le> created_at b) (sort_key created_at (rev xs))"
    by (simp add: sorted_map)
  then show ?thesis
    by (simp add: sort_created_at_reverse_def sorted_wrt_rev)
qed

lemma sorted_wrt_strict_if_distinct:
  "sorted_wrt (\<lambda>a b. created_at b \<le> created_at a) xs \<Longrightarrow> distinct (map created_at xs) \<Longrightarrow>
     sorted_wrt (\<lambda>a b. created_at b < created_at a) xs"
  by (induction xs) (auto simp: order_less_le image_iff)

text \<open>
  The depth bound only cuts the recursion off: a result within some depth is the result
  within every greater depth.
\<close>

lemma flatten_blocks_mono:
  assumes "\<And>w r. recur w = Some r \<Longrightarrow> recur' w = Some r"
  shows "flatten_blocks recur org_id run_id tv xs acc = Some res \<Longrightarrow>
         flatten_blocks recur' org_id run_id tv xs acc = Some res"
proof (induction xs arbitrary: acc)
  case Nil
  then show ?case by (cases acc) auto
next
  case (Cons t rest)
  obtain f l where acc: "acc = (f, l)" by (cases acc)
  show ?case
    using Cons.prems Cons.IH assms unfolding acc
    by (auto split: option.splits if_splits)
qed

lemma flatten_fuel_Suc:
  "flatten_workflow_run_timeline fuel db org_id run_id = Some res \<Longrightarrow>
   flatten_workflow_run_timeline (Suc fuel) db org_id run_id = Some res"
proof (induction fuel arbitrary: run_id res)
  case 0
  then show ?case by simp
next
  case (Suc fuel)
  obtain out logs where res: "res = (out, logs)" by (cases res)
  from flatten_Suc_accumulated [OF Suc.prems [unfolded res]] obtain final where
    acc: "accumulated_timeline (flatten_workflow_run_timeline fuel db org_id) db org_id run_id
            = Some (final, logs)" and out: "out = sort_created_at_reverse final"
    by blast
  have "accumulated_timeline (flatten_workflow_run_timeline (Suc fuel) db org_id) db org_id run_id
            = Some (final, logs)"
    using acc flatten_blocks_mono [of "flatten_workflow_run_timeline fuel db org_id"
        "flatten_workflow_run_timeline (Suc fuel) db org_id", OF Suc.IH]
    unfolding accumulated_timeline_def Let_def
    by (auto split: option.splits if_splits)
  then show ?case
    unfolding res out by (simp del: flatten_workflow_run_timeline.simps
        add: flatten_workflow_run_timeline.simps(2) [of "Suc fuel"])
qed

lemma flatten_fuel_mono:
  "flatten_workflow_run_timeline fuel db org_id run_id = Some res \<Longrightarrow> fuel \<le> fuel' \<Longrightarrow>
   flatten_workflow_run_timeline fuel' db org_id run_id = Some res"
  by (induction fuel' ) (auto simp: le_Suc_eq dest: flatten_fuel_Suc simp del: flatten_workflow_run_timeline.simps)

lemma flatten_blocks_returns:
  assumes "\<forall>t \<in> set xs. \<forall>b. block t = Some b \<and> block_type b = TaskV2 \<and>
             truthy_str (block_workflow_run_id b) \<longrightarrow>
             recur (the (block_workflow_run_id b)) \<noteq> None"
  shows "flatten_blocks recur org_id run_id tv xs acc \<noteq> None"
  using assms
proof (induction xs arbitrary: acc)
  case Nil
  then show ?case by (cases acc) simp
next
  case (Cons t rest)
  obtain f l where acc: "acc = (f, l)" by (cases acc)
  show ?case
    using Cons unfolding acc
    by (auto split: option.splits)
qed

text \<open>
  The aggregator returns whenever the nesting of runs is well-founded: if every nested
  run of a TaskV2 block has a smaller rank than the run whose timeline holds the block,
  the recursion returns within depth \<open>rank run_id + 1\<close>.
\<close>

lemma flatten_returns:
  assumes rank: "\<And>w t b. t \<in> set (service_get_workflow_run_timeline db w org_id) \<Longrightarrow>
      block t = Some b \<Longrightarrow> block_type b = TaskV2 \<Longrightarrow> truthy_str (block_workflow_run_id b) \<Longrightarrow>
      rank (the (block_workflow_run_id b)) < (rank w :: nat)"
  shows "\<exists>res. flatten_workflow_run_timeline (Suc (rank run_id)) db org_id run_id = Some res"
proof (induction "rank run_id" arbitrary: run_id rule: less_induct)
  case less
  have nested: "\<forall>t \<in> set (service_get_workflow_run_timeline db run_id org_id).
         \<forall>b. block t = Some b \<and> block_type b = TaskV2 \<and> truthy_str (block_workflow_run_id b) \<longrightarrow>
           flatten_workflow_run_timeline (rank run_id) db org_id (the (block_workflow_run_id b)) \<noteq> None"
  proof (intro ballI allI impI)
    fix t b
    assume t: "t \<in> set (service_get_workflow_run_timeline db run_id org_id)"
      and b: "block t = Some b \<and> block_type b = TaskV2 \<and> truthy_str (block_workflow_run_id b)"
    then have lt: "rank (the (block_workflow_run_id b)) < rank run_id"
      using rank by blast
    from less [OF lt] obtain res where
      "flatten_workflow_run_timeline (Suc (rank (the (block_workflow_run_id b)))) db org_id
         (the (block_workflow_run_id b)) = Some res" by blast
    from flatten_fuel_mono [OF this, of "rank run_id"] lt
    show "flatten_workflow_run_timeline (rank run_id) db org_id (the (block_workflow_run_id b)) \<noteq> None"
      by simp
  qed
  from flatten_blocks_returns [OF nested]
  show ?case
    by (auto simp: accumulated_timeline_def Let_def split: option.splits)
qed

text \<open>The aggregator on the example.\<close>

lemma ex_flatten:
  "flatten_workflow_run_timeline (Suc (Suc 0)) ex_store ''o_1'' ''wr_p'' =
     Some (ex_timeline, ex_warnings)"
  by code_simp

lemma ex_thoughts_carry_no_block:
  "\<forall>tid. \<forall>e \<in> set (get_thought_timelines ex_store tid ''o_1''). \<not> is_task_v2_entry e"
  by (simp add: ex_store_def ex_thought_def is_task_v2_entry_def)

lemma ex_loop_without_dangling:
  "flatten_blocks (flatten_workflow_run_timeline (Suc 0) ex_store ''o_1'') ''o_1'' ''wr_p'' None
      ([ex_entry ''b2'' TaskV2 (Some ''wr_n'') 2] @ [ex_entry ''b3'' (other_block_type ''form'') None 3])
      ([], []) =
   Some ([ex_entry ''n2'' (other_block_type ''extraction'') None 22,
          ex_entry ''n1'' (other_block_type ''navigation'') None 21,
          ex_thought ''ot_1'' 20,
          ex_entry ''b3'' (other_block_type ''form'') None 3], [])"
  by code_simp

subsection \<open>Splicing of nested timelines\<close>

text \<open>What a call that has returned has returned.\<close>

lemma flatten_splices_when_returned:
  assumes ret: "flatten_workflow_run_timeline (Suc fuel) db org_id run_id = Some (out, logs)"
  shows "out = sort_created_at_reverse
           (concat (map (spliced_entries (flatten_workflow_run_timeline fuel db org_id))
                      (service_get_workflow_run_timeline db run_id org_id)) @
            thought_entries db org_id run_id) \<and>
    (\<forall>t \<in> set (service_get_workflow_run_timeline db run_id org_id). \<forall>b. block t = Some b \<longrightarrow>
       (if block_type b \<noteq> TaskV2
        then spliced_entries (flatten_workflow_run_timeline fuel db org_id) t = [t] \<and>
             t \<in> set out
        else truthy_str (block_workflow_run_id b) \<longrightarrow>
             (\<exists>sub l. flatten_workflow_run_timeline fuel db org_id (the (block_workflow_run_id b))
                        = Some (sub, l) \<and>
                      spliced_entries (flatten_workflow_run_timeline fuel db org_id) t = sub \<and>
                      mset sub \<subseteq># mset out))) \<and>
    ((\<forall>tid. \<forall>e \<in> set (get_thought_timelines db tid org_id). \<not> is_task_v2_entry e) \<longrightarrow>
       (\<forall>e \<in> set out. \<not> is_task_v2_entry e))"
proof -
  define recur where "recur = flatten_workflow_run_timeline fuel db org_id"
  define raw where "raw = service_get_workflow_run_timeline db run_id org_id"
  from flatten_Suc_accumulated [OF ret] obtain final where
    acc: "accumulated_timeline recur db org_id run_id = Some (final, logs)"
    and out: "out = sort_created_at_reverse final"
    unfolding recur_def by blast
  have final: "final = concat (map (spliced_entries recur) raw) @ thought_entries db org_id run_id"
    and defined: "\<forall>t \<in> set raw. \<forall>b. block t = Some b \<and> block_type b = TaskV2 \<and>
             truthy_str (block_workflow_run_id b) \<longrightarrow>
             recur (the (block_workflow_run_id b)) \<noteq> None"
    using accumulated_timeline_spliced [OF acc] unfolding raw_def by blast+
  have eq: "out = sort_created_at_reverse
              (concat (map (spliced_entries recur) raw) @ thought_entries db org_id run_id)"
    using out final by simp
  have sub: "\<And>t. t \<in> set raw \<Longrightarrow> mset (spliced_entries recur t) \<subseteq># mset out"
  proof -
    fix t assume "t \<in> set raw"
    then have "mset (spliced_entries recur t) \<subseteq># mset (concat (map (spliced_entries recur) raw))"
      by (rule mset_spliced_subset)
    then show "mset (spliced_entries recur t) \<subseteq># mset out"
      unfolding eq by (simp add: subset_mset.add_increasing2)
  qed
  have entries: "\<forall>t \<in> set raw. \<forall>b. block t = Some b \<longrightarrow>
       (if block_type b \<noteq> TaskV2
        then spliced_entries recur t = [t] \<and> t \<in> set out
        else truthy_str (block_workflow_run_id b) \<longrightarrow>
             (\<exists>sub l. recur (the (block_workflow_run_id b)) = Some (sub, l) \<and>
                      spliced_entries recur t = sub \<and> mset sub \<subseteq># mset out))"
  proof (intro ballI allI impI)
    fix t b assume t: "t \<in> set raw" and b: "block t = Some b"
    show "if block_type b \<noteq> TaskV2
        then spliced_entries recur t = [t] \<and> t \<in> set out
        else truthy_str (block_workflow_run_id b) \<longrightarrow>
             (\<exists>sub l. recur (the (block_workflow_run_id b)) = Some (sub, l) \<and>
                      spliced_entries recur t = sub \<and> mset sub \<subseteq># mset out)"
    proof (cases "block_type b \<noteq> TaskV2")
      case True
      then have s: "spliced_entries recur t = [t]" using b by (simp add: spliced_entries_def)
      with sub [OF t] have "t \<in> set out" by (simp add: mset_subset_eq_insertD)
      with s True show ?thesis by simp
    next
      case False
      have "truthy_str (block_workflow_run_id b) \<longrightarrow>
             (\<exists>sub l. recur (the (block_workflow_run_id b)) = Some (sub, l) \<and>
                      spliced_entries recur t = sub \<and> mset sub \<subseteq># mset out)"
      proof
        assume tr: "truthy_str (block_workflow_run_id b)"
        with defined t b False obtain r where r: "recur (the (block_workflow_run_id b)) = Some r"
          by fastforce
        obtain sb l where rl: "r = (sb, l)" by (cases r)
        have "spliced_entries recur t = sb"
          using b False tr r rl by (simp add: spliced_entries_def)
        with sub [OF t] r rl
        show "\<exists>sub l. recur (the (block_workflow_run_id b)) = Some (sub, l) \<and>
                      spliced_entries recur t = sub \<and> mset sub \<subseteq># mset out"
          by auto
      qed
      with False show ?thesis by simp
    qed
  qed
  have never: "(\<forall>tid. \<forall>e \<in> set (get_thought_timelines db tid org_id). \<not> is_task_v2_entry e) \<longrightarrow>
       (\<forall>e \<in> set out. \<not> is_task_v2_entry e)"
    using no_task_v2_entry_in_output [OF _ ret] by blast
  show ?thesis
    using eq entries never unfolding recur_def raw_def by blast
qed

text \<open>
  C2. Let the nesting of runs be well-founded: some rank of the runs is smaller at the
  nested run of every TaskV2 block than at the run whose raw timeline holds the block.
  Then \<open>flatten_workflow_run_timeline\<close> returns within every depth above the rank of the
  run, and its output is the sorted list of the entries the raw entries stand for, in
  their order, followed by the thought entries (first conjunct). For each raw entry with
  a block: if the block is not a TaskV2 block, the entry stands for itself and is in the
  output; if it is a TaskV2 block with a nested run id, the recursive call on that id
  returns, the entry stands for the whole list that call returns, and that list is
  contained in the output with its multiplicities (second conjunct). When no thought
  entry the store returns carries a TaskV2 block, no entry of the output carries one: the
  TaskV2 block entries themselves never appear (third conjunct).
\<close>

theorem flatten_splices_nested_timelines:
  assumes nesting: "\<forall>w. \<forall>t \<in> set (service_get_workflow_run_timeline db w org_id).
      \<forall>b. block t = Some b \<and> block_type b = TaskV2 \<and> truthy_str (block_workflow_run_id b) \<longrightarrow>
          rank (the (block_workflow_run_id b)) < (rank w :: nat)"
    and depth: "rank run_id \<le> fuel"
  shows "\<exists>out logs.
    flatten_workflow_run_timeline (Suc fuel) db org_id run_id = Some (out, logs) \<and>
    out = sort_created_at_reverse
           (concat (map (spliced_entries (flatten_workflow_run_timeline fuel db org_id))
                      (service_get_workflow_run_timeline db run_id org_id)) @
            thought_entries db org_id run_id) \<and>
    (\<forall>t \<in> set (service_get_workflow_run_timeline db run_id org_id). \<forall>b. block t = Some b \<longrightarrow>
       (if block_type b \<noteq> TaskV2
        then spliced_entries (flatten_workflow_run_timeline fuel db org_id) t = [t] \<and>
             t \<in> set out
        else truthy_str (block_workflow_run_id b) \<longrightarrow>
             (\<exists>sub l. flatten_workflow_run_timeline fuel db org_id (the (block_workflow_run_id b))
                        = Some (sub, l) \<and>
                      spliced_entries (flatten_workflow_run_timeline fuel db org_id) t = sub \<and>
                      mset sub \<subseteq># mset out))) \<and>
    ((\<forall>tid. \<forall>e \<in> set (get_thought_timelines db tid org_id). \<not> is_task_v2_entry e) \<longrightarrow>
       (\<forall>e \<in> set out. \<not> is_task_v2_entry e))"
proof -
  have "\<exists>res. flatten_workflow_run_timeline (Suc (rank run_id)) db org_id run_id = Some res"
  proof (rule flatten_returns [where rank = rank and run_id = run_id])
    fix w t b
    assume "t \<in> set (service_get_workflow_run_timeline db w org_id)" "block t = Some b"
      "block_type b = TaskV2" "truthy_str (block_workflow_run_id b)"
    with nesting show "rank (the (block_workflow_run_id b)) < rank w" by blast
  qed
  then obtain res where
    "flatten_workflow_run_timeline (Suc (rank run_id)) db org_id run_id = Some res"
    by blast
  from flatten_fuel_mono [OF this, of "Suc fuel"] depth
  have "flatten_workflow_run_timeline (Suc fuel) db org_id run_id = Some res"
    by simp
  moreover obtain out logs where "res = (out, logs)" by (cases res)
  ultimately have ret: "flatten_workflow_run_timeline (Suc fuel) db org_id run_id = Some (out, logs)"
    by simp
  from ret flatten_splices_when_returned [OF ret] show ?thesis
    by blast
qed

lemma ex_nesting:
  "\<forall>w. \<forall>t \<in> set (service_get_workflow_run_timeline ex_store w ''o_1'').
     \<forall>b. block t = Some b \<and> block_type b = TaskV2 \<and> truthy_str (block_workflow_run_id b) \<longrightarrow>
       (if the (block_workflow_run_id b) = ''wr_p'' then Suc 0 else 0) <
       (if w = ''wr_p'' then Suc 0 else (0 :: nat))"
  by (auto simp: ex_store_def ex_entry_def truthy_str_def split: if_splits)

theorem flatten_splices_nested_timelines_witness:
  "flatten_workflow_run_timeline (Suc (Suc 0)) ex_store ''o_1'' ''wr_p'' =
     Some (ex_timeline, ex_warnings) \<and>
   ex_timeline = sort_created_at_reverse
     (concat (map (spliced_entries (flatten_workflow_run_timeline (Suc 0) ex_store ''o_1''))
                (service_get_workflow_run_timeline ex_store ''wr_p'' ''o_1'')) @
      thought_entries ex_store ''o_1'' ''wr_p'') \<and>
   list_all (\<lambda>e. \<not> is_task_v2_entry e) ex_timeline \<and>
   map created_at ex_timeline = [22, 21, 20, 3, 1]"
proof -
  have d: "(if ''wr_p'' = ''wr_p'' then Suc 0 else 0) \<le> Suc 0" by simp
  from flatten_splices_nested_timelines
         [where db = ex_store and org_id = "''o_1''"
            and rank = "\<lambda>w. if w = ''wr_p'' then Suc 0 else 0"
            and run_id = "''wr_p''" and fuel = "Suc 0", OF ex_nesting d]
  obtain out logs where
    ret: "flatten_workflow_run_timeline (Suc (Suc 0)) ex_store ''o_1'' ''wr_p'' = Some (out, logs)"
    and eq: "out = sort_created_at_reverse
     (concat (map (spliced_entries (flatten_workflow_run_timeline (Suc 0) ex_store ''o_1''))
                (service_get_workflow_run_timeline ex_store ''wr_p'' ''o_1'')) @
      thought_entries ex_store ''o_1'' ''wr_p'')"
    and never: "(\<forall>tid. \<forall>e \<in> set (get_thought_timelines ex_store tid ''o_1''). \<not> is_task_v2_entry e) \<longrightarrow>
       (\<forall>e \<in> set out. \<not> is_task_v2_entry e)"
    by blast
  from ret ex_flatten have o: "out = ex_timeline" by simp
  from eq o have a: "ex_timeline = sort_created_at_reverse
     (concat (map (spliced_entries (flatten_workflow_run_timeline (Suc 0) ex_store ''o_1''))
                (service_get_workflow_run_timeline ex_store ''wr_p'' ''o_1'')) @
      thought_entries ex_store ''o_1'' ''wr_p'')"
    by simp
  from never o ex_thoughts_carry_no_block have "\<forall>e \<in> set ex_timeline. \<not> is_task_v2_entry e"
    by blast
  then have b: "list_all (\<lambda>e. \<not> is_task_v2_entry e) ex_timeline"
    by (simp add: list_all_iff)
  have c: "map created_at ex_timeline = [22, 21, 20, 3, 1]"
    by (simp add: ex_timeline_def ex_entry_def ex_thought_def)
  from ret [unfolded o] ex_flatten a b c show ?thesis by (intro conjI)
qed

subsection \<open>Order of the timeline\<close>

text \<open>
  C3. When \<open>flatten_workflow_run_timeline\<close> returns, the creation times of its output are
  in descending order, most recent first; when they are pairwise distinct the order is
  strictly descending; and the output is a permutation of the accumulated list (the
  entries of the loop followed by the thoughts): every entry is there as often as it was
  accumulated, entries with equal creation times included.
\<close>

theorem flatten_sorted_descending_permutation:
  assumes ret: "flatten_workflow_run_timeline fuel db org_id run_id = Some (out, logs)"
  shows "sorted_wrt (\<lambda>a b. created_at b \<le> created_at a) out \<and>
    (distinct (map created_at out) \<longrightarrow> sorted_wrt (\<lambda>a b. created_at b < created_at a) out) \<and>
    (\<exists>n final. fuel = Suc n \<and>
       accumulated_timeline (flatten_workflow_run_timeline n db org_id) db org_id run_id
         = Some (final, logs) \<and>
       mset out = mset final)"
proof -
  from flatten_Some_Suc [OF ret] obtain n where n: "fuel = Suc n" by blast
  from flatten_Suc_accumulated [OF ret [unfolded n]] obtain final where
    acc: "accumulated_timeline (flatten_workflow_run_timeline n db org_id) db org_id run_id
            = Some (final, logs)"
    and out: "out = sort_created_at_reverse final"
    by blast
  have s: "sorted_wrt (\<lambda>a b. created_at b \<le> created_at a) out"
    unfolding out by (rule sorted_wrt_sort_created_at_reverse)
  have "mset out = mset final" unfolding out by simp
  with n acc s sorted_wrt_strict_if_distinct [OF s] show ?thesis by blast
qed

theorem flatten_sorted_descending_permutation_witness:
  "flatten_workflow_run_timeline (Suc (Suc 0)) ex_store ''o_1'' ''wr_p'' =
     Some (ex_timeline, ex_warnings) \<and>
   distinct (map created_at ex_timeline) \<and>
   sorted_wrt (\<lambda>a b. created_at b < created_at a) ex_timeline \<and>
   (\<exists>final. accumulated_timeline (flatten_workflow_run_timeline (Suc 0) ex_store ''o_1'')
               ex_store ''o_1'' ''wr_p'' = Some (final, ex_warnings) \<and>
            mset ex_timeline = mset final)"
proof -
  have d: "distinct (map created_at ex_timeline)"
    by (simp add: ex_timeline_def ex_entry_def ex_thought_def)
  from flatten_sorted_descending_permutation [OF ex_flatten] d
  have s: "sorted_wrt (\<lambda>a b. created_at b < created_at a) ex_timeline"
    and p: "\<exists>final. accumulated_timeline (flatten_workflow_run_timeline (Suc 0) ex_store ''o_1'')
               ex_store ''o_1'' ''wr_p'' = Some (final, ex_warnings) \<and>
            mset ex_timeline = mset final"
    by auto
  from ex_flatten d s p show ?thesis by (intro conjI)
qed

subsection \<open>Entries without a block and dangling TaskV2 blocks\<close>

text \<open>
  C8. In the loop of the aggregator, for every recursive call \<open>recur\<close>, every raw timeline
  \<open>pre @ t # post\<close> and every accumulated pair: an entry \<open>t\<close> with no block stands for no
  output entry, and the loop gives what it gives on \<open>pre @ post\<close>, entries and log alike.
  A TaskV2 block entry \<open>t\<close> whose nested run id is missing (None or the empty string)
  stands for no output entry; the loop returns on \<open>pre @ t # post\<close> exactly when it returns
  on \<open>pre @ post\<close>, with the same entries, and its log holds the warning at the place of
  \<open>t\<close>. In neither case does the entry make the loop raise or stop.
\<close>

theorem flatten_blocks_drops_blockless_and_dangling:
  "(block t = None \<longrightarrow>
      spliced_entries recur t = [] \<and>
      flatten_blocks recur org_id run_id tv (pre @ t # post) acc =
        flatten_blocks recur org_id run_id tv (pre @ post) acc) \<and>
   ((\<exists>b. block t = Some b \<and> block_type b = TaskV2 \<and> \<not> truthy_str (block_workflow_run_id b)) \<longrightarrow>
      spliced_entries recur t = [] \<and>
      map_option fst (flatten_blocks recur org_id run_id tv (pre @ t # post) acc) =
        map_option fst (flatten_blocks recur org_id run_id tv (pre @ post) acc) \<and>
      flatten_blocks recur org_id run_id tv (pre @ t # post) acc =
        (case flatten_blocks recur org_id run_id tv pre acc of
           None \<Rightarrow> None
         | Some (final, logs) \<Rightarrow>
             flatten_blocks recur org_id run_id tv post
               (final, logs @ [block_workflow_run_id_warning run_id org_id tv])))"
proof (intro conjI impI)
  assume "block t = None"
  then show "spliced_entries recur t = []" by (simp add: spliced_entries_def)
next
  assume none: "block t = None"
  have step: "flatten_blocks recur org_id run_id tv (t # post) a =
                flatten_blocks recur org_id run_id tv post a" for a
    using none by (cases a) simp
  show "flatten_blocks recur org_id run_id tv (pre @ t # post) acc =
        flatten_blocks recur org_id run_id tv (pre @ post) acc"
    by (simp add: flatten_blocks_append step split: option.splits)
next
  assume "\<exists>b. block t = Some b \<and> block_type b = TaskV2 \<and> \<not> truthy_str (block_workflow_run_id b)"
  then show "spliced_entries recur t = []" by (auto simp: spliced_entries_def)
next
  assume d: "\<exists>b. block t = Some b \<and> block_type b = TaskV2 \<and> \<not> truthy_str (block_workflow_run_id b)"
  have step: "flatten_blocks recur org_id run_id tv (t # post) (f, l) =
        flatten_blocks recur org_id run_id tv post
          (f, l @ [block_workflow_run_id_warning run_id org_id tv])" for f l
    using d by (auto simp del: flatten_blocks.simps simp add: flatten_blocks.simps(2))
  have fst_eq: "map_option fst (flatten_blocks recur org_id run_id tv post (f, l)) =
                map_option fst (flatten_blocks recur org_id run_id tv post (f, l'))" for f l l'
    using flatten_blocks_from_empty [of recur org_id run_id tv post f l]
      flatten_blocks_from_empty [of recur org_id run_id tv post f l']
    by (cases "flatten_blocks recur org_id run_id tv post ([], [])") auto
  show "map_option fst (flatten_blocks recur org_id run_id tv (pre @ t # post) acc) =
        map_option fst (flatten_blocks recur org_id run_id tv (pre @ post) acc)"
  proof (cases "flatten_blocks recur org_id run_id tv pre acc")
    case None
    then show ?thesis by (simp add: flatten_blocks_append)
  next
    case (Some r)
    obtain f l where r: "r = (f, l)" by (cases r)
    show ?thesis
      unfolding flatten_blocks_append Some r option.case step
      by (rule fst_eq)
  qed
next
  assume d: "\<exists>b. block t = Some b \<and> block_type b = TaskV2 \<and> \<not> truthy_str (block_workflow_run_id b)"
  have step: "flatten_blocks recur org_id run_id tv (t # post) (f, l) =
        flatten_blocks recur org_id run_id tv post
          (f, l @ [block_workflow_run_id_warning run_id org_id tv])" for f l
    using d by (auto simp del: flatten_blocks.simps simp add: flatten_blocks.simps(2))
  show "flatten_blocks recur org_id run_id tv (pre @ t # post) acc =
        (case flatten_blocks recur org_id run_id tv pre acc of
           None \<Rightarrow> None
         | Some (final, logs) \<Rightarrow>
             flatten_blocks recur org_id run_id tv post
               (final, logs @ [block_workflow_run_id_warning run_id org_id tv]))"
  proof (cases "flatten_blocks recur org_id run_id tv pre acc")
    case None
    then show ?thesis by (simp add: flatten_blocks_append)
  next
    case (Some r)
    obtain f l where r: "r = (f, l)" by (cases r)
    show ?thesis
      unfolding flatten_blocks_append Some r option.case step
      by simp
  qed
qed

theorem flatten_blocks_drops_blockless_and_dangling_witness:
  "block (WorkflowRunTimeline type_block None None None 5 5) = None \<and>
   flatten_blocks (flatten_workflow_run_timeline (Suc 0) ex_store ''o_1'') ''o_1'' ''wr_p'' None
      ([ex_entry ''b2'' TaskV2 (Some ''wr_n'') 2] @
       WorkflowRunTimeline type_block None None None 5 5 #
       [ex_entry ''b3'' (other_block_type ''form'') None 3]) ([], []) =
   flatten_blocks (flatten_workflow_run_timeline (Suc 0) ex_store ''o_1'') ''o_1'' ''wr_p'' None
      ([ex_entry ''b2'' TaskV2 (Some ''wr_n'') 2] @
       [ex_entry ''b3'' (other_block_type ''form'') None 3]) ([], []) \<and>
   (\<exists>b. block (ex_entry ''b4'' TaskV2 None 4) = Some b \<and> block_type b = TaskV2 \<and>
        \<not> truthy_str (block_workflow_run_id b)) \<and>
   flatten_blocks (flatten_workflow_run_timeline (Suc 0) ex_store ''o_1'') ''o_1'' ''wr_p'' None
      ([ex_entry ''b2'' TaskV2 (Some ''wr_n'') 2] @ ex_entry ''b4'' TaskV2 None 4 #
       [ex_entry ''b3'' (other_block_type ''form'') None 3]) ([], []) =
   Some ([ex_entry ''n2'' (other_block_type ''extraction'') None 22,
          ex_entry ''n1'' (other_block_type ''navigation'') None 21,
          ex_thought ''ot_1'' 20,
          ex_entry ''b3'' (other_block_type ''form'') None 3], ex_warnings)"
proof -
  let ?R = "flatten_workflow_run_timeline (Suc 0) ex_store ''o_1''"
  let ?pre = "[ex_entry ''b2'' TaskV2 (Some ''wr_n'') 2]"
  let ?post = "[ex_entry ''b3'' (other_block_type ''form'') None 3]"
  let ?t0 = "WorkflowRunTimeline type_block None None None 5 5"
  let ?t1 = "ex_entry ''b4'' TaskV2 None 4"
  have h0: "block ?t0 = None" by simp
  have h1: "\<exists>b. block ?t1 = Some b \<and> block_type b = TaskV2 \<and> \<not> truthy_str (block_workflow_run_id b)"
    by (simp add: ex_entry_def truthy_str_def)
  from flatten_blocks_drops_blockless_and_dangling
         [of ?t0 ?R "''o_1''" "''wr_p''" None ?pre ?post "([], [])"] h0
  have a: "flatten_blocks ?R ''o_1'' ''wr_p'' None (?pre @ ?t0 # ?post) ([], []) =
           flatten_blocks ?R ''o_1'' ''wr_p'' None (?pre @ ?post) ([], [])"
    by blast
  from flatten_blocks_drops_blockless_and_dangling
         [of ?t1 ?R "''o_1''" "''wr_p''" None ?pre ?post "([], [])"] h1
  have b: "flatten_blocks ?R ''o_1'' ''wr_p'' None (?pre @ ?t1 # ?post) ([], []) =
        (case flatten_blocks ?R ''o_1'' ''wr_p'' None ?pre ([], []) of
           None \<Rightarrow> None
         | Some (final, logs) \<Rightarrow>
             flatten_blocks ?R ''o_1'' ''wr_p'' None ?post
               (final, logs @ [block_workflow_run_id_warning ''wr_p'' ''o_1'' None]))"
    by blast
  have c: "(case flatten_blocks ?R ''o_1'' ''wr_p'' None ?pre ([], []) of
           None \<Rightarrow> None
         | Some (final, logs) \<Rightarrow>
             flatten_blocks ?R ''o_1'' ''wr_p'' None ?post
               (final, logs @ [block_workflow_run_id_warning ''wr_p'' ''o_1'' None])) =
     Some ([ex_entry ''n2'' (other_block_type ''extraction'') None 22,
          ex_entry ''n1'' (other_block_type ''navigation'') None 21,
          ex_thought ''ot_1'' 20,
          ex_entry ''b3'' (other_block_type ''form'') None 3], ex_warnings)"
    by code_simp
  from h0 a h1 b [unfolded c] show ?thesis by (intro conjI)
qed

subsection \<open>The timeline endpoint\<close>

text \<open>
  C10. The handler \<open>get_workflow_run_timeline\<close> takes \<open>page\<close> and \<open>page_size\<close> and returns
  the whole result of \<open>flatten_workflow_run_timeline\<close> for the caller's organization and
  the run id; for any two pairs of page and page size the results are equal.
\<close>

theorem get_workflow_run_timeline_ignores_pagination:
  "get_workflow_run_timeline fuel db run_id page page_size current_org =
     flatten_workflow_run_timeline fuel db (organization_id current_org) run_id \<and>
   get_workflow_run_timeline fuel db run_id page page_size current_org =
     get_workflow_run_timeline fuel db run_id page' page_size' current_org"
  by (simp add: get_workflow_run_timeline_def)

theorem get_workflow_run_timeline_ignores_pagination_witness:
  "get_workflow_run_timeline (Suc (Suc 0)) ex_store ''wr_p'' 1 20 ex_org =
     Some (ex_timeline, ex_warnings) \<and>
   get_workflow_run_timeline (Suc (Suc 0)) ex_store ''wr_p'' 3 2 ex_org =
     Some (ex_timeline, ex_warnings)"
proof -
  have o: "organization_id ex_org = ''o_1''" by (simp add: ex_org_def)
  show ?thesis
    using get_workflow_run_timeline_ignores_pagination
            [of "Suc (Suc 0)" ex_store "''wr_p''" 1 20 ex_org 3 2]
    by (auto simp add: o ex_flatten simp del: flatten_workflow_run_timeline.simps)
qed

subsection \<open>The dispatcher on the example collaborators\<close>

lemma ex_v2_dispatch_facts:
  "permission_check ex_env ex_org (v2r_browser_session_id (ex_v2_request ''find it'')) = None"
  "initialize_task_v2 ex_env (run_task_v2_init_args (ex_v2_request ''find it'') ex_org) = Inr ex_task_v2"
  "v2r_browser_session_id (ex_v2_request ''find it'') = None"
  "organization_id ex_org = ''o_1''"
  "observer_cruise_id ex_task_v2 = ''oc_1''"
  "tv2_url ex_task_v2 = None"
  "effects ex_state = []"
  "permission_check ex_env ex_org None = None"
  by (simp_all add: ex_env_def run_task_v2_init_args_def ex_v2_request_def ex_org_def
      ex_task_v2_def ex_state_def)

lemma ex_v1_dispatch_facts:
  "req_engine (ex_request skyvern_v1 g u d) = skyvern_v1"
  "req_browser_session_id (ex_request e g u d) = None"
  "req_url (ex_request e g u d) = u"
  "req_goal (ex_request e g u d) = g"
  "req_title (ex_request e g u d) = None"
  "req_data_extraction_schema (ex_request e g u d) = d"
  "req_error_code_mapping (ex_request e g u d) = None"
  "req_proxy_location (ex_request e g u d) = None"
  "req_max_steps (ex_request e g u d) = Some 10"
  "generate_task ex_env g ex_org = ex_generation"
  by (simp_all add: ex_request_def ex_env_def)

subsection \<open>Rejection of an unrecognized engine\<close>




subsection \<open>Failure of the reasoning provider\<close>

text \<open>
  C5. When the initialization of a v2 run fails with the provider's exception (and the
  permission check passes), both \<open>run_task\<close> on a v2 request and \<open>run_task_v2\<close> raise the
  500 exception with the text ``Please try again later.''; no run is returned, the trace
  ends with the call of the initialization and the error log, and it holds no start of an
  execution beyond those it held before.
\<close>

theorem llm_failure_is_500_and_starts_nothing:
  "(req_engine run_request = skyvern_v2 \<and>
    permission_check env current_org (req_browser_session_id run_request) = None \<and>
    initialize_task_v2 env (run_task_init_args run_request current_org) = Inl LLMProviderError \<longrightarrow>
      run_task env run_request current_org x_api_key s =
        (Inl (HTTPException 500
                ''Skyvern LLM failure to initialize task v2. Please try again later.''),
         s\<lparr>effects := effects s @
             [AnalyticsCapture ''skyvern-oss-run-task'' [(''url'', req_url run_request)],
              PermissionCheck current_org (req_browser_session_id run_request),
              InitializeTaskV2 (run_task_init_args run_request current_org),
              LogRecord llm_failure_log]\<rparr>) \<and>
      filter is_execute_task_v2 (effects (snd (run_task env run_request current_org x_api_key s))) =
        filter is_execute_task_v2 (effects s)) \<and>
   (permission_check env org (v2r_browser_session_id data) = None \<and>
    initialize_task_v2 env (run_task_v2_init_args data org) = Inl LLMProviderError \<longrightarrow>
      run_task_v2 env data org x_max_iterations_override x_max_steps_override s =
        (Inl (HTTPException 500
                ''Skyvern LLM failure to initialize task v2. Please try again later.''),
         s\<lparr>effects := effects s @
             (if truthy_header x_max_iterations_override \<or> truthy_header x_max_steps_override
              then [LogRecord (Log Info ''Overriding max steps for task v2''
                      [(''max_iterations_override'', log_header x_max_iterations_override),
                       (''max_steps_override'', log_header x_max_steps_override)])]
              else []) @
             [PermissionCheck org (v2r_browser_session_id data),
              InitializeTaskV2 (run_task_v2_init_args data org),
              LogRecord llm_failure_log]\<rparr>) \<and>
      filter is_execute_task_v2
        (effects (snd (run_task_v2 env data org x_max_iterations_override x_max_steps_override s))) =
        filter is_execute_task_v2 (effects s))"
  by (simp add: run_task_def run_task_v2_def analytics_capture_def add_effect_def
      llm_failure_exception_def Let_def)

theorem llm_failure_is_500_and_starts_nothing_witness:
  "initialize_task_v2 ex_env (run_task_init_args (ex_request skyvern_v2 ''fail'' None None) ex_org)
     = Inl LLMProviderError \<and>
   initialize_task_v2 ex_env (run_task_v2_init_args (ex_v2_request ''fail'') ex_org)
     = Inl LLMProviderError \<and>
   fst (run_task ex_env (ex_request skyvern_v2 ''fail'' None None) ex_org None ex_state) =
     Inl (HTTPException 500 ''Skyvern LLM failure to initialize task v2. Please try again later.'') \<and>
   filter is_execute_task_v2
     (effects (snd (run_task ex_env (ex_request skyvern_v2 ''fail'' None None) ex_org None ex_state)))
     = [] \<and>
   fst (run_task_v2 ex_env (ex_v2_request ''fail'') ex_org None (Some (HInt 5)) ex_state) =
     Inl (HTTPException 500 ''Skyvern LLM failure to initialize task v2. Please try again later.'') \<and>
   filter is_execute_task_v2
     (effects (snd (run_task_v2 ex_env (ex_v2_request ''fail'') ex_org None (Some (HInt 5)) ex_state)))
     = []"
proof -
  let ?r = "ex_request skyvern_v2 ''fail'' None None"
  let ?d = "ex_v2_request ''fail''"
  have e: "req_engine ?r = skyvern_v2" by (simp add: ex_request_def)
  have p1: "permission_check ex_env ex_org (req_browser_session_id ?r) = None"
    and p2: "permission_check ex_env ex_org (v2r_browser_session_id ?d) = None"
    by (simp_all add: ex_env_def)
  have i1: "initialize_task_v2 ex_env (run_task_init_args ?r ex_org) = Inl LLMProviderError"
    by (simp add: ex_env_def run_task_init_args_def ex_request_def)
  have i2: "initialize_task_v2 ex_env (run_task_v2_init_args ?d ex_org) = Inl LLMProviderError"
    by (simp add: ex_env_def run_task_v2_init_args_def ex_v2_request_def)
  have f: "effects ex_state = []" by (simp add: ex_state_def)
  note inst = llm_failure_is_500_and_starts_nothing
                [where run_request = ?r and env = ex_env and current_org = ex_org
                   and x_api_key = None and s = ex_state and data = ?d and org = ex_org
                   and x_max_iterations_override = None
                   and x_max_steps_override = "Some (HInt 5)"]
  from inst e p1 i1 have
    a: "run_task ex_env ?r ex_org None ex_state =
        (Inl (HTTPException 500
                ''Skyvern LLM failure to initialize task v2. Please try again later.''),
         ex_state\<lparr>effects := effects ex_state @
             [AnalyticsCapture ''skyvern-oss-run-task'' [(''url'', req_url ?r)],
              PermissionCheck ex_org (req_browser_session_id ?r),
              InitializeTaskV2 (run_task_init_args ?r ex_org),
              LogRecord llm_failure_log]\<rparr>)"
    and b: "filter is_execute_task_v2 (effects (snd (run_task ex_env ?r ex_org None ex_state))) =
        filter is_execute_task_v2 (effects ex_state)"
    by blast+
  from inst p2 i2 have
    c: "fst (run_task_v2 ex_env ?d ex_org None (Some (HInt 5)) ex_state) =
        Inl (HTTPException 500
                ''Skyvern LLM failure to initialize task v2. Please try again later.'')"
    and d: "filter is_execute_task_v2
        (effects (snd (run_task_v2 ex_env ?d ex_org None (Some (HInt 5)) ex_state))) =
        filter is_execute_task_v2 (effects ex_state)"
    by (metis fst_conv)+
  from a have a': "fst (run_task ex_env ?r ex_org None ex_state) =
     Inl (HTTPException 500 ''Skyvern LLM failure to initialize task v2. Please try again later.'')"
    by simp
  from i1 i2 a' b [unfolded f] c d [unfolded f] show ?thesis by simp
qed

subsection \<open>The override headers of the v2 endpoint\<close>

text \<open>
  C6, as stated, fails: with both headers supplied and the max-steps header 0, the
  execution is started with the value of the max-iterations header; and with only the
  max-steps header supplied as 0, it is started with no override.
\<close>

theorem max_steps_override_precedence_counterexample:
  "last (effects (snd (run_task_v2 ex_env (ex_v2_request ''find it'') ex_org
                         (Some (HInt 5)) (Some (HInt 0)) ex_state))) =
     ExecuteTaskV2 ''o_1'' ''oc_1'' (Some (HInt 5)) None \<and>
   ExecuteTaskV2 ''o_1'' ''oc_1'' (Some (HInt 0)) None \<notin>
     set (effects (snd (run_task_v2 ex_env (ex_v2_request ''find it'') ex_org
                          (Some (HInt 5)) (Some (HInt 0)) ex_state))) \<and>
   last (effects (snd (run_task_v2 ex_env (ex_v2_request ''find it'') ex_org
                         None (Some (HInt 0)) ex_state))) =
     ExecuteTaskV2 ''o_1'' ''oc_1'' None None"
  by (simp add: run_task_v2_def analytics_capture_def add_effect_def py_or_def Let_def
      ex_v2_dispatch_facts truthy_header_def log_header_def)

text \<open>
  C6, amended. When the permission check passes and the run is initialized,
  \<open>run_task_v2\<close> starts the execution with the max-steps header if that header is truthy
  (a nonzero integer or a non-empty string), and with the max-iterations header otherwise;
  so the max-steps header takes precedence when both are truthy, and a single truthy
  header is the one used. One log record with both headers is written, before the
  permission check, exactly when at least one header is truthy.
\<close>

theorem run_task_v2_override_coalesced:
  assumes "permission_check env org (v2r_browser_session_id data) = None"
    and "initialize_task_v2 env (run_task_v2_init_args data org) = Inr task_v2"
  shows "run_task_v2 env data org x_max_iterations_override x_max_steps_override s =
    (Inr task_v2,
     s\<lparr>effects := effects s @
         (if truthy_header x_max_iterations_override \<or> truthy_header x_max_steps_override
          then [LogRecord (Log Info ''Overriding max steps for task v2''
                  [(''max_iterations_override'', log_header x_max_iterations_override),
                   (''max_steps_override'', log_header x_max_steps_override)])]
          else []) @
         [PermissionCheck org (v2r_browser_session_id data),
          InitializeTaskV2 (run_task_v2_init_args data org),
          AnalyticsCapture ''skyvern-oss-agent-task-v2'' [(''url'', tv2_url task_v2)],
          ExecuteTaskV2 (organization_id org) (observer_cruise_id task_v2)
            (if truthy_header x_max_steps_override then x_max_steps_override
             else x_max_iterations_override)
            (v2r_browser_session_id data)]\<rparr>)"
  using assms
  by (simp add: run_task_v2_def analytics_capture_def add_effect_def py_or_def Let_def)

theorem run_task_v2_override_coalesced_witness:
  "permission_check ex_env ex_org (v2r_browser_session_id (ex_v2_request ''find it'')) = None \<and>
   initialize_task_v2 ex_env (run_task_v2_init_args (ex_v2_request ''find it'') ex_org) = Inr ex_task_v2 \<and>
   effects (snd (run_task_v2 ex_env (ex_v2_request ''find it'') ex_org
                   (Some (HInt 5)) (Some (HInt 7)) ex_state)) =
     [LogRecord (Log Info ''Overriding max steps for task v2''
        [(''max_iterations_override'', LInt 5), (''max_steps_override'', LInt 7)]),
      PermissionCheck ex_org None,
      InitializeTaskV2 (run_task_v2_init_args (ex_v2_request ''find it'') ex_org),
      AnalyticsCapture ''skyvern-oss-agent-task-v2'' [(''url'', None)],
      ExecuteTaskV2 ''o_1'' ''oc_1'' (Some (HInt 7)) None] \<and>
   effects (snd (run_task_v2 ex_env (ex_v2_request ''find it'') ex_org
                   (Some (HStr ''4'')) None ex_state)) =
     [LogRecord (Log Info ''Overriding max steps for task v2''
        [(''max_iterations_override'', LStr ''4''), (''max_steps_override'', LNone)]),
      PermissionCheck ex_org None,
      InitializeTaskV2 (run_task_v2_init_args (ex_v2_request ''find it'') ex_org),
      AnalyticsCapture ''skyvern-oss-agent-task-v2'' [(''url'', None)],
      ExecuteTaskV2 ''o_1'' ''oc_1'' (Some (HStr ''4'')) None] \<and>
   effects (snd (run_task_v2 ex_env (ex_v2_request ''find it'') ex_org None None ex_state)) =
     [PermissionCheck ex_org None,
      InitializeTaskV2 (run_task_v2_init_args (ex_v2_request ''find it'') ex_org),
      AnalyticsCapture ''skyvern-oss-agent-task-v2'' [(''url'', None)],
      ExecuteTaskV2 ''o_1'' ''oc_1'' None None]"
  using run_task_v2_override_coalesced [OF ex_v2_dispatch_facts(1,2), of "Some (HInt 5)" "Some (HInt 7)" ex_state]
    run_task_v2_override_coalesced [OF ex_v2_dispatch_facts(1,2), of "Some (HStr ''4'')" None ex_state]
    run_task_v2_override_coalesced [OF ex_v2_dispatch_facts(1,2), of None None ex_state]
  by (simp add: ex_v2_dispatch_facts truthy_header_def log_header_def)

subsection \<open>Task generation on the v1 path\<close>

text \<open>
  C7, as stated, fails: a request with no url that supplies the empty dict as its
  \<^verbatim>\<open>data_extraction_schema\<close> gets the generated schema, since the empty dict is false
  in \<^verbatim>\<open>data_extraction_schema or task_generation.extracted_information_schema\<close>.
\<close>

theorem supplied_empty_schema_counterexample:
  "req_url (ex_request skyvern_v1 ''find it'' None (Some (SchemaDict []))) = None \<and>
   req_data_extraction_schema (ex_request skyvern_v1 ''find it'' None (Some (SchemaDict [])))
     = Some (SchemaDict []) \<and>
   last (effects (snd (run_task ex_env (ex_request skyvern_v1 ''find it'' None (Some (SchemaDict [])))
                         ex_org None ex_state))) =
     RunTaskV1
       \<lparr>tr_title = None, tr_url = Some ''https://example.com'',
        tr_navigation_goal = Some ''open it'', tr_navigation_payload = None,
        tr_data_extraction_goal = Some ''read it'',
        tr_extracted_information_schema = Some (SchemaStr ''generated''),
        tr_error_code_mapping = None, tr_proxy_location = None,
        tr_browser_session_id = None\<rparr>
       ex_org (Some 10) None"
  by (simp add: run_task_def v1_task_request_def analytics_capture_def add_effect_def py_or_def
      Let_def ex_v1_dispatch_facts ex_generation_def truthy_str_def truthy_schema_def
      ex_env_def)

text \<open>
  C7, amended. For a v1 request that passes the permission check: when the request has no
  url (None or the empty string), task generation is called once, before the task is
  created, and the task request takes the generated url, navigation payload and data
  extraction goal, the generated navigation goal unless it is empty (then the request's
  goal), and the request's \<^verbatim>\<open>data_extraction_schema\<close> when that is non-empty (not None,
  not an empty dict, list or string), the generated schema otherwise. When the request has
  a url, task generation is not called and the task request is built from the request's
  own fields.
\<close>

theorem run_task_v1_generates_when_url_missing:
  assumes v1: "req_engine run_request = skyvern_v1"
    and perm: "permission_check env current_org (req_browser_session_id run_request) = None"
    and tg: "tg = generate_task env (req_goal run_request) current_org"
    and tr: "tr =
      \<lparr>tr_title = req_title run_request,
       tr_url = (if truthy_str (req_url run_request) then req_url run_request else gen_url tg),
       tr_navigation_goal =
         (if truthy_str (req_url run_request) then Some (req_goal run_request)
          else if truthy_str (gen_navigation_goal tg) then gen_navigation_goal tg
          else Some (req_goal run_request)),
       tr_navigation_payload =
         (if truthy_str (req_url run_request) then None else gen_navigation_payload tg),
       tr_data_extraction_goal =
         (if truthy_str (req_url run_request) then None else gen_data_extraction_goal tg),
       tr_extracted_information_schema =
         (if truthy_str (req_url run_request) then req_data_extraction_schema run_request
          else if truthy_schema (req_data_extraction_schema run_request)
          then req_data_extraction_schema run_request
          else gen_extracted_information_schema tg),
       tr_error_code_mapping = req_error_code_mapping run_request,
       tr_proxy_location = req_proxy_location run_request,
       tr_browser_session_id = req_browser_session_id run_request\<rparr>"
  shows "run_task env run_request current_org x_api_key s =
    (Inr (v1_response (task_v1_run_task env tr current_org (req_max_steps run_request) x_api_key)),
     s\<lparr>effects := effects s @
         [AnalyticsCapture ''skyvern-oss-run-task'' [(''url'', req_url run_request)],
          PermissionCheck current_org (req_browser_session_id run_request)] @
         (if truthy_str (req_url run_request) then []
          else [GenerateTask (req_goal run_request) current_org]) @
         [RunTaskV1 tr current_org (req_max_steps run_request) x_api_key]\<rparr>)"
proof (cases "truthy_str (req_url run_request)")
  case True
  then show ?thesis
    using v1 perm unfolding tr
    by (simp add: run_task_def v1_task_request_def analytics_capture_def add_effect_def Let_def)
next
  case False
  then show ?thesis
    using v1 perm unfolding tr tg
    by (simp add: run_task_def v1_task_request_def analytics_capture_def add_effect_def
        py_or_def Let_def)
qed

theorem run_task_v1_generates_when_url_missing_witness:
  "req_engine (ex_request skyvern_v1 ''find it'' None (Some (SchemaStr ''mine''))) = skyvern_v1 \<and>
   permission_check ex_env ex_org None = None \<and>
   effects (snd (run_task ex_env (ex_request skyvern_v1 ''find it'' None (Some (SchemaStr ''mine'')))
                   ex_org None ex_state)) =
     [AnalyticsCapture ''skyvern-oss-run-task'' [(''url'', None)],
      PermissionCheck ex_org None,
      GenerateTask ''find it'' ex_org,
      RunTaskV1
        \<lparr>tr_title = None, tr_url = Some ''https://example.com'',
         tr_navigation_goal = Some ''open it'', tr_navigation_payload = None,
         tr_data_extraction_goal = Some ''read it'',
         tr_extracted_information_schema = Some (SchemaStr ''mine''),
         tr_error_code_mapping = None, tr_proxy_location = None,
         tr_browser_session_id = None\<rparr>
        ex_org (Some 10) None] \<and>
   effects (snd (run_task ex_env (ex_request skyvern_v1 ''find it'' (Some ''https://a.test'') None)
                   ex_org None ex_state)) =
     [AnalyticsCapture ''skyvern-oss-run-task'' [(''url'', Some ''https://a.test'')],
      PermissionCheck ex_org None,
      RunTaskV1
        \<lparr>tr_title = None, tr_url = Some ''https://a.test'',
         tr_navigation_goal = Some ''find it'', tr_navigation_payload = None,
         tr_data_extraction_goal = None,
         tr_extracted_information_schema = None,
         tr_error_code_mapping = None, tr_proxy_location = None,
         tr_browser_session_id = None\<rparr>
        ex_org (Some 10) None]"
proof -
  have p: "permission_check ex_env ex_org None = None" by (simp add: ex_env_def)
  have pg: "permission_check ex_env ex_org b = None" for b by (simp add: ex_env_def)
  have f: "effects ex_state = []" by (simp add: ex_state_def)
  have g: "truthy_str (gen_navigation_goal ex_generation)"
    "gen_url ex_generation = Some ''https://example.com''"
    "gen_navigation_goal ex_generation = Some ''open it''"
    "gen_navigation_payload ex_generation = None"
    "gen_data_extraction_goal ex_generation = Some ''read it''"
    by (simp_all add: ex_generation_def truthy_str_def)
  have t: "\<not> truthy_str None" "truthy_str (Some ''https://a.test'')"
    "truthy_schema (Some (SchemaStr ''mine''))" "truthy_str (Some ''open it'')"
    by (simp_all add: truthy_str_def truthy_schema_def)
  note a = run_task_v1_generates_when_url_missing
      [where run_request = "ex_request skyvern_v1 ''find it'' None (Some (SchemaStr ''mine''))"
         and env = ex_env and current_org = ex_org and x_api_key = None and s = ex_state,
       OF ex_v1_dispatch_facts(1) pg refl refl]
  note b = run_task_v1_generates_when_url_missing
      [where run_request = "ex_request skyvern_v1 ''find it'' (Some ''https://a.test'') None"
         and env = ex_env and current_org = ex_org and x_api_key = None and s = ex_state,
       OF ex_v1_dispatch_facts(1) pg refl refl]
  show ?thesis
    unfolding a b
    by (simp add: ex_v1_dispatch_facts p f g t)
qed

end
